theory Spec2Isabelle
  imports Complex_Main
begin

section \<open>Data model (results/models.py, courses/models.py)\<close>

text \<open>
  Scores and grade points are decimal numbers in the source (\<open>DecimalField\<close>, and
  \<open>float\<close> between parsing a form and saving); they are modelled as exact reals, so the
  comparisons against the integer thresholds are the source's comparisons. Primary and
  foreign keys are natural numbers, and the clock (\<open>timezone.now()\<close>) is a parameter.
\<close>

datatype status = Draft | Pending | Verified | Rejected

record result =
  pk :: nat
  student :: nat
  course :: nat
  session :: nat
  semester :: nat
  ca_score :: real
  exam_score :: real
  total_score :: real
  grade :: string
  grade_point :: real
  remarks :: string
  submitted_by :: nat
  submitted_at :: nat
  verified_by :: "nat option"
  verified_at :: "nat option"
  status :: status

section \<open>Grading (utils/helpers.py, Result.save)\<close>

definition get_grade_from_score :: "real \<Rightarrow> string \<times> real" where
  "get_grade_from_score score =
     (if score \<ge> 70 then (''A'', 5)
      else if score \<ge> 60 then (''B'', 4)
      else if score \<ge> 50 then (''C'', 3)
      else if score \<ge> 45 then (''D'', 2)
      else if score \<ge> 40 then (''E'', 1)
      else (''F'', 0))"

text \<open>
  The body of \<open>Result.save\<close> before \<open>super().save()\<close>: the total is assigned first, and the
  grade and grade point are then chosen from the assigned total.
\<close>

definition auto_calculate :: "result \<Rightarrow> result" where
  "auto_calculate self =
     (let self = self\<lparr>total_score := ca_score self + exam_score self\<rparr> in
      if total_score self \<ge> 70 then self\<lparr>grade := ''A'', grade_point := 5\<rparr>
      else if total_score self \<ge> 60 then self\<lparr>grade := ''B'', grade_point := 4\<rparr>
      else if total_score self \<ge> 50 then self\<lparr>grade := ''C'', grade_point := 3\<rparr>
      else if total_score self \<ge> 45 then self\<lparr>grade := ''D'', grade_point := 2\<rparr>
      else if total_score self \<ge> 40 then self\<lparr>grade := ''E'', grade_point := 1\<rparr>
      else self\<lparr>grade := ''F'', grade_point := 0\<rparr>)"

text \<open>
  \<open>super().save()\<close>: the row with the instance's primary key is overwritten, and a row is
  inserted when the table has none with that key.
\<close>

definition Model_save :: "result \<Rightarrow> result list \<Rightarrow> result list" where
  "Model_save self rows =
     (if pk self \<in> pk ` set rows
      then map (\<lambda>row. if pk row = pk self then self else row) rows
      else rows @ [self])"

text \<open>\<open>Result.save\<close>: returns the instance as mutated, and the table after the write.\<close>

definition save :: "result \<Rightarrow> result list \<Rightarrow> result \<times> result list" where
  "save self rows = (let self = auto_calculate self in (self, Model_save self rows))"

text \<open>
  \<open>Result.save\<close> hands its arguments on to \<open>super().save()\<close>. Called with
  \<open>update_fields\<close>, the instance is mutated in the same way, and the write is an update of
  the listed columns only, of the row with the instance's primary key; it fails
  (\<open>DatabaseError\<close>, here \<open>None\<close>) when no row has that key.
\<close>

datatype field_name =
    F_student | F_course | F_session | F_semester
  | F_ca_score | F_exam_score | F_total_score | F_grade | F_grade_point
  | F_remarks | F_submitted_by | F_submitted_at | F_verified_by | F_verified_at | F_status

fun write_field :: "result \<Rightarrow> field_name \<Rightarrow> result \<Rightarrow> result" where
  "write_field self F_student row = row\<lparr>student := student self\<rparr>"
| "write_field self F_course row = row\<lparr>course := course self\<rparr>"
| "write_field self F_session row = row\<lparr>session := session self\<rparr>"
| "write_field self F_semester row = row\<lparr>semester := semester self\<rparr>"
| "write_field self F_ca_score row = row\<lparr>ca_score := ca_score self\<rparr>"
| "write_field self F_exam_score row = row\<lparr>exam_score := exam_score self\<rparr>"
| "write_field self F_total_score row = row\<lparr>total_score := total_score self\<rparr>"
| "write_field self F_grade row = row\<lparr>grade := grade self\<rparr>"
| "write_field self F_grade_point row = row\<lparr>grade_point := grade_point self\<rparr>"
| "write_field self F_remarks row = row\<lparr>remarks := remarks self\<rparr>"
| "write_field self F_submitted_by row = row\<lparr>submitted_by := submitted_by self\<rparr>"
| "write_field self F_submitted_at row = row\<lparr>submitted_at := submitted_at self\<rparr>"
| "write_field self F_verified_by row = row\<lparr>verified_by := verified_by self\<rparr>"
| "write_field self F_verified_at row = row\<lparr>verified_at := verified_at self\<rparr>"
| "write_field self F_status row = row\<lparr>status := status self\<rparr>"

definition Model_save_update_fields ::
  "result \<Rightarrow> field_name list \<Rightarrow> result list \<Rightarrow> result list option" where
  "Model_save_update_fields self update_fields rows =
     (if pk self \<in> pk ` set rows
      then Some (map (\<lambda>row. if pk row = pk self
                            then fold (write_field self) update_fields row else row) rows)
      else None)"

definition save_update_fields ::
  "result \<Rightarrow> field_name list \<Rightarrow> result list \<Rightarrow> (result \<times> result list) option" where
  "save_update_fields self update_fields rows =
     (let self = auto_calculate self
      in map_option (Pair self) (Model_save_update_fields self update_fields rows))"

section \<open>ORM operations used by the views\<close>

datatype orm_error = MultipleObjectsReturned | DatabaseError

text \<open>
  The sources do not fix the release of the framework, and \<open>update_or_create\<close> saves a
  row it found in one of two ways. Up to Django 4.1 it calls \<open>save()\<close>
  (\<open>SaveAllFields\<close>). From Django 4.2 on it calls \<open>save(update_fields=...)\<close> with the
  names of the defaults and of the fields that have a \<open>pre_save\<close> of their own, here the
  two date-time fields (\<open>SaveUpdateFields\<close>). The mode is a parameter of the model.
\<close>

datatype save_mode = SaveAllFields | SaveUpdateFields

definition update_or_create_fields :: "field_name list" where
  "update_or_create_fields =
     [F_ca_score, F_exam_score, F_remarks, F_submitted_by, F_status,
      F_submitted_at, F_verified_at]"

text \<open>The key the database hands to a new row.\<close>

definition next_pk :: "result list \<Rightarrow> nat" where
  "next_pk rows = Suc (fold max (map pk rows) 0)"

text \<open>
  \<open>Result.objects.update_or_create(student, course, session, semester, defaults)\<close>, with the
  five defaults both call sites pass. Without a matching row a new instance is built from
  the lookup and the defaults (\<open>new_result\<close>) and saved: \<open>submitted_at\<close> is
  \<open>auto_now_add\<close>, the verifier fields are empty, and the derived fields of the fresh
  instance are unset until \<open>save\<close> assigns them (written here as zero and the empty
  string). A matching row gets the defaults assigned (\<open>set_defaults\<close>) and is saved in
  the mode of the framework. More than one matching row raises. The returned flag is
  \<open>created\<close>.
\<close>

definition new_result ::
  "nat \<Rightarrow> nat \<Rightarrow> nat \<Rightarrow> nat \<Rightarrow> nat \<Rightarrow> nat \<Rightarrow> real \<Rightarrow> real \<Rightarrow> string \<Rightarrow> nat \<Rightarrow> status \<Rightarrow> result" where
  "new_result k now st c se sm ca ex rem by stat =
     \<lparr>pk = k, student = st, course = c, session = se, semester = sm,
      ca_score = ca, exam_score = ex, total_score = 0, grade = [],
      grade_point = 0, remarks = rem, submitted_by = by, submitted_at = now,
      verified_by = None, verified_at = None, status = stat\<rparr>"

definition set_defaults :: "result \<Rightarrow> real \<Rightarrow> real \<Rightarrow> string \<Rightarrow> nat \<Rightarrow> status \<Rightarrow> result" where
  "set_defaults obj ca ex rem by stat =
     obj\<lparr>ca_score := ca, exam_score := ex, remarks := rem, submitted_by := by, status := stat\<rparr>"

definition update_or_create ::
  "save_mode \<Rightarrow> nat \<Rightarrow> nat \<Rightarrow> nat \<Rightarrow> nat \<Rightarrow> nat \<Rightarrow> real \<Rightarrow> real \<Rightarrow> string \<Rightarrow> nat \<Rightarrow> status \<Rightarrow>
   result list \<Rightarrow> orm_error + (result \<times> bool) \<times> result list" where
  "update_or_create mode now st c se sm ca ex rem by stat rows =
     (case filter (\<lambda>r. student r = st \<and> course r = c \<and> session r = se \<and> semester r = sm) rows of
        [] \<Rightarrow>
          (let (obj, rows) = save (new_result (next_pk rows) now st c se sm ca ex rem by stat) rows
           in Inr ((obj, True), rows))
      | [obj] \<Rightarrow>
          (case mode of
             SaveAllFields \<Rightarrow>
               (let (obj, rows) = save (set_defaults obj ca ex rem by stat) rows
                in Inr ((obj, False), rows))
           | SaveUpdateFields \<Rightarrow>
               (case save_update_fields (set_defaults obj ca ex rem by stat)
                       update_or_create_fields rows of
                  None \<Rightarrow> Inl DatabaseError
                | Some (obj, rows) \<Rightarrow> Inr ((obj, False), rows)))
      | _ \<Rightarrow> Inl MultipleObjectsReturned)"

text \<open>\<open>get_object_or_404(Result, pk=pk)\<close>.\<close>

definition get_object_or_404 :: "nat \<Rightarrow> result list \<Rightarrow> result option" where
  "get_object_or_404 k rows = find (\<lambda>r. pk r = k) rows"

section \<open>Validation (Result.clean)\<close>

datatype validation_error = ValidationError string

definition clean :: "result \<Rightarrow> validation_error option" where
  "clean self =
     (if ca_score self < 0 \<or> ca_score self > 40
      then Some (ValidationError ''CA score must be between 0 and 40'')
      else if exam_score self < 0 \<or> exam_score self > 60
      then Some (ValidationError ''Exam score must be between 0 and 60'')
      else None)"

section \<open>Requests\<close>

datatype http_method = GET | POST

text \<open>
  A posted score field: \<open>Blank\<close> is a field that is absent or empty, \<open>Malformed\<close> a text
  the parser in use rejects (\<open>float()\<close> in the entry views, the form field in the edit
  view), \<open>Number x\<close> a text it reads as \<open>x\<close>. IEEE special values are outside the model.
\<close>

datatype field = Blank | Malformed | Number real

definition float_of :: "field \<Rightarrow> real option" where
  "float_of f = (case f of Number x \<Rightarrow> Some x | _ \<Rightarrow> None)"

section \<open>Saving a single result (save_result_ajax)\<close>

datatype save_response =
    SaveOk real string real
  | SaveBadRequest string
  | SaveServerError

text \<open>
  The lecturer's staff row is \<open>request.user.staff\<close>. A failing \<open>float()\<close> and an ORM
  error are caught by the handler's \<open>except Exception\<close> and answered with status 500.
\<close>

definition save_result_ajax ::
  "save_mode \<Rightarrow> nat \<Rightarrow> nat \<Rightarrow> nat \<Rightarrow> nat \<Rightarrow> nat \<Rightarrow> nat \<Rightarrow> field \<Rightarrow> field \<Rightarrow> string \<Rightarrow>
   result list \<Rightarrow> save_response \<times> result list" where
  "save_result_ajax mode now staff student_id course_id session_id semester_id ca_in exam_in rem rows =
     (case float_of ca_in of
        None \<Rightarrow> (SaveServerError, rows)
      | Some ca \<Rightarrow>
         (case float_of exam_in of
            None \<Rightarrow> (SaveServerError, rows)
          | Some ex \<Rightarrow>
              if ca < 0 \<or> ca > 40
              then (SaveBadRequest ''CA score must be between 0 and 40'', rows)
              else if ex < 0 \<or> ex > 60
              then (SaveBadRequest ''Exam score must be between 0 and 60'', rows)
              else (case update_or_create mode now student_id course_id session_id semester_id
                           ca ex rem staff Draft rows of
                      Inl e \<Rightarrow> (SaveServerError, rows)
                    | Inr ((res, created), rows') \<Rightarrow>
                        (SaveOk (total_score res) (grade res) (grade_point res), rows'))))"

section \<open>Course allocations and registrations\<close>

record allocation =
  alloc_id :: nat
  alloc_course :: nat
  alloc_lecturer :: nat
  alloc_session :: nat
  alloc_semester :: nat

datatype reg_status = RegPending | RegApproved | RegRejected

record registration =
  reg_student :: nat
  reg_course :: nat
  reg_session :: nat
  reg_semester :: nat
  reg_status :: reg_status

definition get_allocation_or_404 :: "nat \<Rightarrow> allocation list \<Rightarrow> allocation option" where
  "get_allocation_or_404 k allocs = find (\<lambda>a. alloc_id a = k) allocs"

text \<open>The approved registrations of the allocation's course and term.\<close>

definition approved_registrations :: "allocation \<Rightarrow> registration list \<Rightarrow> registration list" where
  "approved_registrations allocation regs =
     filter (\<lambda>g. reg_course g = alloc_course allocation \<and>
                 reg_session g = alloc_session allocation \<and>
                 reg_semester g = alloc_semester allocation \<and>
                 reg_status g = RegApproved) regs"

text \<open>The results of the allocation's course and term.\<close>

definition course_term_results :: "allocation \<Rightarrow> result list \<Rightarrow> result list" where
  "course_term_results allocation rows =
     filter (\<lambda>r. course r = alloc_course allocation \<and>
                 session r = alloc_session allocation \<and>
                 semester r = alloc_semester allocation) rows"

section \<open>Entering results for a course (result_entry_view)\<close>

datatype entry_error = CAOutOfRange nat | ExamOutOfRange nat | InvalidFormat nat

text \<open>
  The loop of the POST branch over the registered students, with the posted fields of a
  student given by \<open>ca_in\<close>, \<open>exam_in\<close> and \<open>rem_in\<close>. An error names the student (the
  source puts the matriculation number into the message). An ORM error is not caught by
  the \<open>except ValueError\<close> and ends the loop; the rows written before it stay written.
\<close>

fun entry_loop ::
  "save_mode \<Rightarrow> nat \<Rightarrow> nat \<Rightarrow> allocation \<Rightarrow> (nat \<Rightarrow> field) \<Rightarrow> (nat \<Rightarrow> field) \<Rightarrow> (nat \<Rightarrow> string) \<Rightarrow>
   nat list \<Rightarrow> nat \<Rightarrow> entry_error list \<Rightarrow> result list \<Rightarrow>
   orm_error option \<times> nat \<times> entry_error list \<times> result list" where
  "entry_loop mode now staff allocation ca_in exam_in rem_in [] saved_count errors rows =
     (None, saved_count, errors, rows)"
| "entry_loop mode now staff allocation ca_in exam_in rem_in (st # sts) saved_count errors rows =
     (if ca_in st \<noteq> Blank \<and> exam_in st \<noteq> Blank then
        (case float_of (ca_in st) of
           None \<Rightarrow> entry_loop mode now staff allocation ca_in exam_in rem_in sts saved_count
                     (errors @ [InvalidFormat st]) rows
         | Some ca \<Rightarrow>
            (case float_of (exam_in st) of
               None \<Rightarrow> entry_loop mode now staff allocation ca_in exam_in rem_in sts saved_count
                         (errors @ [InvalidFormat st]) rows
             | Some ex \<Rightarrow>
                 if ca < 0 \<or> ca > 40
                 then entry_loop mode now staff allocation ca_in exam_in rem_in sts saved_count
                        (errors @ [CAOutOfRange st]) rows
                 else if ex < 0 \<or> ex > 60
                 then entry_loop mode now staff allocation ca_in exam_in rem_in sts saved_count
                        (errors @ [ExamOutOfRange st]) rows
                 else (case update_or_create mode now st (alloc_course allocation)
                              (alloc_session allocation) (alloc_semester allocation)
                              ca ex (rem_in st) staff Draft rows of
                         Inl e \<Rightarrow> (Some e, saved_count, errors, rows)
                       | Inr (_, rows') \<Rightarrow>
                           entry_loop mode now staff allocation ca_in exam_in rem_in sts
                             (saved_count + 1) errors rows')))
      else entry_loop mode now staff allocation ca_in exam_in rem_in sts saved_count errors rows)"

datatype entry_response =
    EntryNotFound
  | EntryPermissionDenied
  | EntryNoStudents
  | EntrySaved nat "entry_error list"
  | EntryCrashed orm_error
  | EntryForm

text \<open>
  The registrations are taken in table order (the source orders them by matriculation
  number, which changes the order of the writes and of the messages only). The response
  of a POST carries the number saved and the first five errors.
\<close>

definition result_entry_view ::
  "http_method \<Rightarrow> save_mode \<Rightarrow> nat \<Rightarrow> nat \<Rightarrow> allocation list \<Rightarrow> registration list \<Rightarrow>
   (nat \<Rightarrow> field) \<Rightarrow> (nat \<Rightarrow> field) \<Rightarrow> (nat \<Rightarrow> string) \<Rightarrow> nat \<Rightarrow>
   result list \<Rightarrow> entry_response \<times> result list" where
  "result_entry_view method mode now staff allocs regs ca_in exam_in rem_in allocation_id rows =
     (case get_allocation_or_404 allocation_id allocs of
        None \<Rightarrow> (EntryNotFound, rows)
      | Some allocation \<Rightarrow>
          if alloc_lecturer allocation \<noteq> staff then (EntryPermissionDenied, rows)
          else let registrations = approved_registrations allocation regs in
            if registrations = [] then (EntryNoStudents, rows)
            else if method = POST then
              (case entry_loop mode now staff allocation ca_in exam_in rem_in
                      (map reg_student registrations) 0 [] rows of
                 (Some e, _, _, rows') \<Rightarrow> (EntryCrashed e, rows')
               | (None, saved_count, errors, rows') \<Rightarrow>
                   (EntrySaved saved_count (take 5 errors), rows'))
            else (EntryForm, rows))"

section \<open>Editing one result (result_edit_view)\<close>

datatype edit_response =
    EditNotFound
  | EditPermissionDenied
  | EditNotEditable
  | EditUpdated
  | EditForm

text \<open>
  \<open>ResultEntryForm\<close> has the fields \<open>ca_score\<close>, \<open>exam_score\<close> and \<open>remarks\<close>. The form is
  valid when both scores are read and \<open>Result.clean\<close> accepts the instance carrying
  them; \<open>form.save()\<close> then calls \<open>Result.save\<close>. An invalid form is shown again.
\<close>

definition result_edit_view ::
  "http_method \<Rightarrow> nat \<Rightarrow> field \<Rightarrow> field \<Rightarrow> string \<Rightarrow> nat \<Rightarrow>
   result list \<Rightarrow> edit_response \<times> result list" where
  "result_edit_view method staff ca_in exam_in rem k rows =
     (case get_object_or_404 k rows of
        None \<Rightarrow> (EditNotFound, rows)
      | Some result \<Rightarrow>
          if submitted_by result \<noteq> staff then (EditPermissionDenied, rows)
          else if status result \<notin> {Draft, Rejected} then (EditNotEditable, rows)
          else if method = POST then
            (case (float_of ca_in, float_of exam_in) of
               (Some ca, Some ex) \<Rightarrow>
                 (let result = result\<lparr>ca_score := ca, exam_score := ex, remarks := rem\<rparr> in
                  if clean result = None
                  then (EditUpdated, snd (save result rows))
                  else (EditForm, rows))
             | _ \<Rightarrow> (EditForm, rows))
          else (EditForm, rows))"

section \<open>Submitting for verification (result_submit_view)\<close>

datatype submit_response =
    SubmitNotFound
  | SubmitPermissionDenied
  | SubmitIncomplete nat
  | Submitted nat
  | SubmitNoDrafts
  | SubmitNotPost

text \<open>
  \<open>SubmitIncomplete n\<close> is the error message asking for the results of all \<open>n\<close> students.
  The update is one \<open>QuerySet.update\<close> over the lecturer's draft rows of the course and
  term; it returns the number of rows matched.
\<close>

definition result_submit_view ::
  "http_method \<Rightarrow> nat \<Rightarrow> nat \<Rightarrow> allocation list \<Rightarrow> registration list \<Rightarrow> nat \<Rightarrow>
   result list \<Rightarrow> submit_response \<times> result list" where
  "result_submit_view method now staff allocs regs allocation_id rows =
     (if method = POST then
        (case get_allocation_or_404 allocation_id allocs of
           None \<Rightarrow> (SubmitNotFound, rows)
         | Some allocation \<Rightarrow>
             if alloc_lecturer allocation \<noteq> staff then (SubmitPermissionDenied, rows)
             else
               let students_count = length (approved_registrations allocation regs);
                   results_count = length (course_term_results allocation rows)
               in if results_count < students_count then (SubmitIncomplete students_count, rows)
                  else
                    let sel = (\<lambda>r. course r = alloc_course allocation \<and>
                                     session r = alloc_session allocation \<and>
                                     semester r = alloc_semester allocation \<and>
                                     submitted_by r = staff \<and> status r = Draft);
                        updated = length (filter sel rows);
                        rows' = map (\<lambda>r. if sel r then r\<lparr>status := Pending, submitted_at := now\<rparr>
                                          else r) rows
                    in if updated > 0 then (Submitted updated, rows')
                       else (SubmitNoDrafts, rows'))
      else (SubmitNotPost, rows))"

section \<open>Verification (result_verify_view, result_reject_view, bulk_verify_results_ajax)\<close>

datatype verify_response = VerifyNotFound | VerifyDone | VerifyNotPost

text \<open>
  \<open>user_staff\<close> is the staff row of the requesting administrator, if there is one
  (\<open>hasattr(request.user, 'staff')\<close>).
\<close>

definition result_verify_view ::
  "http_method \<Rightarrow> nat \<Rightarrow> nat option \<Rightarrow> nat \<Rightarrow> result list \<Rightarrow> verify_response \<times> result list" where
  "result_verify_view method now user_staff k rows =
     (if method = POST then
        (case get_object_or_404 k rows of
           None \<Rightarrow> (VerifyNotFound, rows)
         | Some result \<Rightarrow>
             let result = result\<lparr>status := Verified\<rparr>;
                 result = (case user_staff of None \<Rightarrow> result
                           | Some s \<Rightarrow> result\<lparr>verified_by := Some s\<rparr>);
                 result = result\<lparr>verified_at := Some now\<rparr>
             in (VerifyDone, snd (save result rows)))
      else (VerifyNotPost, rows))"

text \<open>The f-string \<open>"REJECTED: {rejection_reason}\n{result.remarks}"\<close>; the newline is character 10.\<close>

definition rejected_remarks :: "string \<Rightarrow> string \<Rightarrow> string" where
  "rejected_remarks rejection_reason old = ''REJECTED: '' @ rejection_reason @ [CHR 0x0A] @ old"

definition result_reject_view ::
  "http_method \<Rightarrow> nat \<Rightarrow> nat option \<Rightarrow> string \<Rightarrow> nat \<Rightarrow> result list \<Rightarrow>
   verify_response \<times> result list" where
  "result_reject_view method now user_staff rejection_reason k rows =
     (if method = POST then
        (case get_object_or_404 k rows of
           None \<Rightarrow> (VerifyNotFound, rows)
         | Some result \<Rightarrow>
             let result = result\<lparr>status := Rejected\<rparr>;
                 result = (case user_staff of None \<Rightarrow> result
                           | Some s \<Rightarrow> result\<lparr>verified_by := Some s\<rparr>);
                 result = result\<lparr>verified_at := Some now\<rparr>;
                 result = (if rejection_reason \<noteq> []
                           then result\<lparr>remarks := rejected_remarks rejection_reason (remarks result)\<rparr>
                           else result)
             in (VerifyDone, snd (save result rows)))
      else (VerifyNotPost, rows))"

datatype bulk_response =
    BulkOk nat
  | BulkNoneSelected
  | BulkServerError

text \<open>
  The posted identifiers \<open>result_ids[]\<close>: \<open>Some k\<close> is a text that is the integer \<open>k\<close>,
  \<open>None\<close> a text that is no integer, on which the \<open>id__in\<close> lookup raises; the handler's
  \<open>except Exception\<close> answers that with status 500. The write is one \<open>QuerySet.update\<close>
  over the rows whose key is listed, and the response carries the number of rows matched.
\<close>

definition bulk_verify_results_ajax ::
  "nat \<Rightarrow> nat option \<Rightarrow> nat option list \<Rightarrow> result list \<Rightarrow> bulk_response \<times> result list" where
  "bulk_verify_results_ajax now user_staff result_ids rows =
     (if result_ids = [] then (BulkNoneSelected, rows)
      else if None \<in> set result_ids then (BulkServerError, rows)
      else
        let staff = user_staff;
            sel = (\<lambda>r. Some (pk r) \<in> set result_ids);
            count = length (filter sel rows);
            rows' = map (\<lambda>r. if sel r
                              then r\<lparr>status := Verified, verified_by := staff,
                                     verified_at := Some now\<rparr>
                              else r) rows
        in (BulkOk count, rows'))"

section \<open>Grade point averages (utils/helpers.py)\<close>

text \<open>
  \<open>round(x, 2)\<close> on a decimal: to the nearest hundredth, a tie going to the even one.
\<close>

definition round_half_even :: "real \<Rightarrow> int" where
  "round_half_even x =
     (let f = \<lfloor>x\<rfloor>; d = x - of_int f
      in if d < 1 / 2 then f else if d > 1 / 2 then f + 1 else if even f then f else f + 1)"

definition round2 :: "real \<Rightarrow> real" where
  "round2 x = of_int (round_half_even (x * 100)) / 100"

text \<open>
  \<open>credit_units\<close> gives the credit units of a course (\<open>r.course.credit_units\<close>, an
  \<open>IntegerField\<close>). The quotient is taken exactly; the 28 significant digits at which the
  source's decimal context rounds a quotient are not modelled.
\<close>

definition calculate_gpa :: "(nat \<Rightarrow> int) \<Rightarrow> result list \<Rightarrow> real" where
  "calculate_gpa credit_units results =
     (if results = [] then 0
      else
        let total_points = (\<Sum>r\<leftarrow>results. grade_point r * of_int (credit_units (course r)));
            total_units = (\<Sum>r\<leftarrow>results. credit_units (course r))
        in if total_units = 0 then 0
           else round2 (total_points / of_int total_units))"

definition calculate_cgpa :: "(nat \<Rightarrow> int) \<Rightarrow> nat \<Rightarrow> result list \<Rightarrow> real" where
  "calculate_cgpa credit_units st rows =
     calculate_gpa credit_units (filter (\<lambda>r. student r = st \<and> status r = Verified) rows)"

section \<open>Predicates used in the statements\<close>

text \<open>The natural key of a result (\<open>unique_together\<close> in \<open>Result.Meta\<close>).\<close>

definition natural_key :: "result \<Rightarrow> nat \<times> nat \<times> nat \<times> nat" where
  "natural_key r = (student r, course r, session r, semester r)"

text \<open>The constraints the database keeps on the table: the primary key and \<open>unique_together\<close>.\<close>

definition table_ok :: "result list \<Rightarrow> bool" where
  "table_ok rows \<longleftrightarrow> distinct (map pk rows) \<and> distinct (map natural_key rows)"

text \<open>
  The rows \<open>result_submit_view\<close> selects for the transition: the drafts the lecturer
  submitted for the allocation's course and term.
\<close>

definition eligible_draft :: "allocation \<Rightarrow> nat \<Rightarrow> result \<Rightarrow> bool" where
  "eligible_draft allocation staff r \<longleftrightarrow>
     course r = alloc_course allocation \<and> session r = alloc_session allocation \<and>
     semester r = alloc_semester allocation \<and> submitted_by r = staff \<and> status r = Draft"

text \<open>
  The row \<open>update_or_create\<close> leaves in the table after it assigned the defaults to a row
  it found: the instance as \<open>save\<close> computed it, or, when only the listed fields are
  written, the row with the defaults and its old derived fields.
\<close>

definition stored_row :: "save_mode \<Rightarrow> result \<Rightarrow> result" where
  "stored_row mode obj = (case mode of SaveAllFields \<Rightarrow> auto_calculate obj | SaveUpdateFields \<Rightarrow> obj)"

text \<open>A row whose derived fields are the ones computed from its two scores.\<close>

definition derived_ok :: "result \<Rightarrow> bool" where
  "derived_ok r \<longleftrightarrow>
     total_score r = ca_score r + exam_score r \<and>
     (grade r, grade_point r) = get_grade_from_score (total_score r)"

text \<open>
  The formula of the specification for the grade point average: the sum of grade point
  times credit units over the sum of credit units.
\<close>

definition spec_weighted_average :: "(nat \<Rightarrow> int) \<Rightarrow> result list \<Rightarrow> real" where
  "spec_weighted_average credit_units results =
     (\<Sum>r\<leftarrow>results. grade_point r * of_int (credit_units (course r))) /
     of_int (\<Sum>r\<leftarrow>results. credit_units (course r))"

section \<open>Example data\<close>

text \<open>A saved row of session 1, semester 1, with empty remarks and no verifier.\<close>

definition example_row :: "nat \<Rightarrow> nat \<Rightarrow> nat \<Rightarrow> real \<Rightarrow> real \<Rightarrow> nat \<Rightarrow> status \<Rightarrow> result" where
  "example_row k st c ca ex by stat =
     auto_calculate \<lparr>pk = k, student = st, course = c, session = 1, semester = 1,
       ca_score = ca, exam_score = ex, total_score = 0, grade = [], grade_point = 0,
       remarks = [], submitted_by = by, submitted_at = 0, verified_by = None,
       verified_at = None, status = stat\<rparr>"

text \<open>Course 1 has three credit units, every other course one.\<close>

definition example_credit_units :: "nat \<Rightarrow> int" where
  "example_credit_units c = (if c = 1 then 3 else 1)"

text \<open>A posted form that gives every student the scores 10 and 20 and no remarks.\<close>

definition example_ca_in :: "nat \<Rightarrow> field" where
  "example_ca_in st = Number 10"

definition example_exam_in :: "nat \<Rightarrow> field" where
  "example_exam_in st = Number 20"

definition example_rem_in :: "nat \<Rightarrow> string" where
  "example_rem_in st = []"

definition example_allocation :: allocation where
  "example_allocation = \<lparr>alloc_id = 1, alloc_course = 1, alloc_lecturer = 7,
     alloc_session = 1, alloc_semester = 1\<rparr>"

definition example_registration :: "nat \<Rightarrow> registration" where
  "example_registration st = \<lparr>reg_student = st, reg_course = 1, reg_session = 1,
     reg_semester = 1, reg_status = RegApproved\<rparr>"

section \<open>Saving and the table: auxiliary facts\<close>

lemma fold_max_lower: "(a::nat) \<le> fold max xs a"
  by (induction xs arbitrary: a) (auto intro: order_trans [OF max.cobounded2])

lemma fold_max_upper: "x \<in> set xs \<Longrightarrow> (x::nat) \<le> fold max xs a"
proof (induction xs arbitrary: a)
  case Nil
  then show ?case by simp
next
  case (Cons y ys)
  show ?case
  proof (cases "x = y")
    case True
    have "y \<le> max y a" by simp
    also have "\<dots> \<le> fold max ys (max y a)" by (rule fold_max_lower)
    finally show ?thesis using True by simp
  next
    case False
    with Cons show ?thesis by simp
  qed
qed

lemma next_pk_fresh: "r \<in> set rows \<Longrightarrow> pk r \<noteq> next_pk rows"
proof
  assume mem: "r \<in> set rows" and eq: "pk r = next_pk rows"
  from mem have "pk r \<in> set (map pk rows)" by (metis image_eqI set_map)
  then have "pk r \<le> fold max (map pk rows) 0" by (rule fold_max_upper)
  with eq show False by (simp add: next_pk_def)
qed

lemma auto_calculate_keeps:
  "pk (auto_calculate r) = pk r"
  "student (auto_calculate r) = student r"
  "course (auto_calculate r) = course r"
  "session (auto_calculate r) = session r"
  "semester (auto_calculate r) = semester r"
  "ca_score (auto_calculate r) = ca_score r"
  "exam_score (auto_calculate r) = exam_score r"
  "remarks (auto_calculate r) = remarks r"
  "submitted_by (auto_calculate r) = submitted_by r"
  "submitted_at (auto_calculate r) = submitted_at r"
  "verified_by (auto_calculate r) = verified_by r"
  "verified_at (auto_calculate r) = verified_at r"
  "status (auto_calculate r) = status r"
  by (simp_all add: auto_calculate_def Let_def)

lemma auto_calculate_derived_ok: "derived_ok (auto_calculate r)"
  by (simp add: derived_ok_def auto_calculate_def get_grade_from_score_def Let_def)

lemma auto_calculate_alt:
  "auto_calculate r =
     r\<lparr>total_score := ca_score r + exam_score r,
       grade := fst (get_grade_from_score (ca_score r + exam_score r)),
       grade_point := snd (get_grade_from_score (ca_score r + exam_score r))\<rparr>"
  by (simp add: auto_calculate_def get_grade_from_score_def Let_def)

lemma derived_ok_fixed:
  assumes "derived_ok r"
  shows "auto_calculate r = r"
proof -
  from assms have t: "ca_score r + exam_score r = total_score r"
    and g: "get_grade_from_score (total_score r) = (grade r, grade_point r)"
    by (simp_all add: derived_ok_def)
  show ?thesis
    unfolding auto_calculate_alt t g by simp
qed

lemma auto_calculate_idem: "auto_calculate (auto_calculate r) = auto_calculate r"
  by (rule derived_ok_fixed [OF auto_calculate_derived_ok])

lemma auto_calculate_overrides:
  "auto_calculate (r\<lparr>total_score := t, grade := g, grade_point := p\<rparr>) = auto_calculate r"
  by (simp add: auto_calculate_def Let_def)

lemma natural_key_auto_calculate: "natural_key (auto_calculate r) = natural_key r"
  by (simp add: natural_key_def auto_calculate_keeps)

lemma filter_key_cases:
  "distinct (map f xs) \<Longrightarrow>
     filter (\<lambda>x. f x = k) xs = [] \<or> (\<exists>x. filter (\<lambda>x. f x = k) xs = [x])"
proof (induction xs)
  case Nil
  then show ?case by simp
next
  case (Cons y ys)
  show ?case
  proof (cases "f y = k")
    case True
    with Cons.prems have "\<forall>x\<in>set ys. f x \<noteq> k" by (auto simp: image_iff)
    then have "filter (\<lambda>x. f x = k) ys = []" by (simp add: filter_empty_conv)
    with True show ?thesis by simp
  next
    case False
    with Cons show ?thesis by simp
  qed
qed

lemma key_filter_eq:
  "filter (\<lambda>r. student r = st \<and> course r = c \<and> session r = se \<and> semester r = sm) rows =
   filter (\<lambda>r. natural_key r = (st, c, se, sm)) rows"
  by (simp add: natural_key_def)

lemma Model_save_insert:
  "\<forall>r\<in>set rows. pk r \<noteq> pk self \<Longrightarrow> Model_save self rows = rows @ [self]"
  by (auto simp add: Model_save_def)

lemma Model_save_update:
  "obj \<in> set rows \<Longrightarrow> pk self = pk obj \<Longrightarrow>
     Model_save self rows = map (\<lambda>row. if pk row = pk obj then self else row) rows"
  by (auto simp add: Model_save_def)

lemma distinct_pk_unique:
  "distinct (map pk rows) \<Longrightarrow> x \<in> set rows \<Longrightarrow> y \<in> set rows \<Longrightarrow> pk x = pk y \<Longrightarrow> x = y"
  by (meson distinct_map inj_onD)

text \<open>Overwriting a row by one with the same primary key and natural key.\<close>

lemma replace_row:
  assumes d: "distinct (map pk rows)" and mem: "obj \<in> set rows"
    and p: "pk new = pk obj" and k: "natural_key new = natural_key obj"
  defines "rows' \<equiv> map (\<lambda>row. if pk row = pk obj then new else row) rows"
  shows "map pk rows' = map pk rows"
    and "map natural_key rows' = map natural_key rows"
    and "filter (\<lambda>r. natural_key r = natural_key obj) rows' =
         map (\<lambda>row. if pk row = pk obj then new else row)
           (filter (\<lambda>r. natural_key r = natural_key obj) rows)"
    and "r \<in> set rows' \<Longrightarrow> pk r = pk obj \<Longrightarrow> r = new"
proof -
  have same: "row = obj" if "row \<in> set rows" "pk row = pk obj" for row
    using distinct_pk_unique [OF d that(1) mem that(2)] .
  show "map pk rows' = map pk rows"
    unfolding rows'_def by (simp add: p comp_def cong: map_cong)
  show "map natural_key rows' = map natural_key rows"
    unfolding rows'_def using same by (auto simp add: k comp_def)
  show "filter (\<lambda>r. natural_key r = natural_key obj) rows' =
         map (\<lambda>row. if pk row = pk obj then new else row)
           (filter (\<lambda>r. natural_key r = natural_key obj) rows)"
    unfolding rows'_def filter_map comp_def
    by (rule arg_cong [where f = "map _"], rule filter_cong) (auto simp add: k dest: same)
  show "r = new" if "r \<in> set rows'" "pk r = pk obj"
    using that unfolding rows'_def by (auto simp add: p split: if_splits)
qed

lemma set_defaults_keeps:
  "pk (set_defaults obj ca ex rem by stat) = pk obj"
  "natural_key (set_defaults obj ca ex rem by stat) = natural_key obj"
  "ca_score (set_defaults obj ca ex rem by stat) = ca"
  "exam_score (set_defaults obj ca ex rem by stat) = ex"
  "remarks (set_defaults obj ca ex rem by stat) = rem"
  "submitted_by (set_defaults obj ca ex rem by stat) = by"
  "status (set_defaults obj ca ex rem by stat) = stat"
  "submitted_at (set_defaults obj ca ex rem by stat) = submitted_at obj"
  "verified_by (set_defaults obj ca ex rem by stat) = verified_by obj"
  "verified_at (set_defaults obj ca ex rem by stat) = verified_at obj"
  by (simp_all add: set_defaults_def natural_key_def)

lemma new_result_fields:
  "pk (new_result k now st c se sm ca ex rem by stat) = k"
  "natural_key (new_result k now st c se sm ca ex rem by stat) = (st, c, se, sm)"
  "ca_score (new_result k now st c se sm ca ex rem by stat) = ca"
  "exam_score (new_result k now st c se sm ca ex rem by stat) = ex"
  "remarks (new_result k now st c se sm ca ex rem by stat) = rem"
  "submitted_by (new_result k now st c se sm ca ex rem by stat) = by"
  "status (new_result k now st c se sm ca ex rem by stat) = stat"
  by (simp_all add: new_result_def natural_key_def)

lemma set_defaults_same:
  "ca_score obj = ca \<Longrightarrow> exam_score obj = ex \<Longrightarrow> remarks obj = rem \<Longrightarrow>
   submitted_by obj = by \<Longrightarrow> status obj = stat \<Longrightarrow> set_defaults obj ca ex rem by stat = obj"
  by (simp add: set_defaults_def)

lemma example_row_fields:
  "pk (example_row k st c ca ex by stat) = k"
  "student (example_row k st c ca ex by stat) = st"
  "course (example_row k st c ca ex by stat) = c"
  "session (example_row k st c ca ex by stat) = 1"
  "semester (example_row k st c ca ex by stat) = 1"
  "ca_score (example_row k st c ca ex by stat) = ca"
  "exam_score (example_row k st c ca ex by stat) = ex"
  "remarks (example_row k st c ca ex by stat) = []"
  "submitted_by (example_row k st c ca ex by stat) = by"
  "submitted_at (example_row k st c ca ex by stat) = 0"
  "verified_by (example_row k st c ca ex by stat) = None"
  "verified_at (example_row k st c ca ex by stat) = None"
  "status (example_row k st c ca ex by stat) = stat"
  "natural_key (example_row k st c ca ex by stat) = (st, c, 1, 1)"
  by (simp_all add: example_row_def auto_calculate_keeps natural_key_def)

lemma write_update_or_create_fields:
  "fold (write_field self) update_or_create_fields row =
     row\<lparr>ca_score := ca_score self, exam_score := exam_score self, remarks := remarks self,
         submitted_by := submitted_by self, status := status self,
         submitted_at := submitted_at self, verified_at := verified_at self\<rparr>"
  by (simp add: update_or_create_fields_def)

text \<open>
  Written back to the row it was read from, an instance that got the defaults changes
  the columns of the defaults only.
\<close>

lemma write_back_defaults:
  "fold (write_field (auto_calculate (set_defaults obj ca ex rem by stat)))
      update_or_create_fields obj = set_defaults obj ca ex rem by stat"
  by (simp add: write_update_or_create_fields auto_calculate_keeps set_defaults_def)

lemma stored_row_keeps:
  "pk (stored_row mode r) = pk r"
  "natural_key (stored_row mode r) = natural_key r"
  "ca_score (stored_row mode r) = ca_score r"
  "exam_score (stored_row mode r) = exam_score r"
  "remarks (stored_row mode r) = remarks r"
  "submitted_by (stored_row mode r) = submitted_by r"
  "submitted_at (stored_row mode r) = submitted_at r"
  "verified_by (stored_row mode r) = verified_by r"
  "verified_at (stored_row mode r) = verified_at r"
  "status (stored_row mode r) = status r"
  "auto_calculate (stored_row mode r) = auto_calculate r"
  by (cases mode; simp add: stored_row_def auto_calculate_keeps natural_key_auto_calculate
      auto_calculate_idem)+

lemma update_or_create_create:
  assumes "filter (\<lambda>r. natural_key r = (st, c, se, sm)) rows = []"
  shows "update_or_create mode now st c se sm ca ex rem by stat rows =
           Inr ((auto_calculate (new_result (next_pk rows) now st c se sm ca ex rem by stat), True),
                rows @ [auto_calculate (new_result (next_pk rows) now st c se sm ca ex rem by stat)])"
proof -
  have "Model_save (auto_calculate (new_result (next_pk rows) now st c se sm ca ex rem by stat)) rows
          = rows @ [auto_calculate (new_result (next_pk rows) now st c se sm ca ex rem by stat)]"
    by (rule Model_save_insert) (simp add: auto_calculate_keeps new_result_fields next_pk_fresh)
  with assms show ?thesis
    by (simp add: update_or_create_def key_filter_eq save_def Let_def)
qed

lemma update_or_create_update:
  assumes f: "filter (\<lambda>r. natural_key r = (st, c, se, sm)) rows = [obj]"
    and dp: "distinct (map pk rows)"
  shows "update_or_create mode now st c se sm ca ex rem by stat rows =
           Inr ((auto_calculate (set_defaults obj ca ex rem by stat), False),
                map (\<lambda>row. if pk row = pk obj
                            then stored_row mode (set_defaults obj ca ex rem by stat) else row) rows)"
proof -
  let ?upd = "set_defaults obj ca ex rem by stat"
  have "obj \<in> set (filter (\<lambda>r. natural_key r = (st, c, se, sm)) rows)"
    by (simp add: f)
  then have mem: "obj \<in> set rows" by simp
  have p: "pk (auto_calculate ?upd) = pk obj"
    by (simp add: auto_calculate_keeps set_defaults_keeps)
  show ?thesis
  proof (cases mode)
    case SaveAllFields
    have "Model_save (auto_calculate ?upd) rows =
          map (\<lambda>row. if pk row = pk obj then auto_calculate ?upd else row) rows"
      by (rule Model_save_update [OF mem p])
    with f SaveAllFields show ?thesis
      by (simp add: update_or_create_def key_filter_eq save_def Let_def stored_row_def)
  next
    case SaveUpdateFields
    have inpk: "pk (auto_calculate ?upd) \<in> pk ` set rows"
      unfolding p using mem by (rule imageI)
    have "map (\<lambda>row. if pk row = pk (auto_calculate ?upd)
                      then fold (write_field (auto_calculate ?upd)) update_or_create_fields row
                      else row) rows =
          map (\<lambda>row. if pk row = pk obj then ?upd else row) rows"
    proof (rule map_cong [OF refl])
      fix row assume r: "row \<in> set rows"
      show "(if pk row = pk (auto_calculate ?upd)
             then fold (write_field (auto_calculate ?upd)) update_or_create_fields row else row) =
            (if pk row = pk obj then ?upd else row)"
      proof (cases "pk row = pk obj")
        case True
        then have "row = obj" by (rule distinct_pk_unique [OF dp r mem])
        with True show ?thesis by (simp add: p write_back_defaults)
      next
        case False
        then show ?thesis by (simp add: p)
      qed
    qed
    then have "Model_save_update_fields (auto_calculate ?upd) update_or_create_fields rows =
          Some (map (\<lambda>row. if pk row = pk obj then ?upd else row) rows)"
      using inpk by (simp add: Model_save_update_fields_def)
    with f SaveUpdateFields show ?thesis
      by (simp add: update_or_create_def key_filter_eq save_update_fields_def Let_def
          stored_row_def)
  qed
qed

text \<open>A call whose defaults the matching row already carries changes nothing.\<close>

lemma update_or_create_fixed:
  assumes f: "filter (\<lambda>r. natural_key r = (st, c, se, sm)) rows = [obj]"
    and dp: "distinct (map pk rows)"
    and same: "ca_score obj = ca" "exam_score obj = ex" "remarks obj = rem"
      "submitted_by obj = by" "status obj = stat"
    and ok: "mode = SaveAllFields \<longrightarrow> derived_ok obj"
  shows "update_or_create mode now st c se sm ca ex rem by stat rows =
           Inr ((auto_calculate obj, False), rows)"
proof -
  have upd: "set_defaults obj ca ex rem by stat = obj"
    by (rule set_defaults_same [OF same])
  have st: "stored_row mode obj = obj"
    using ok by (cases mode) (simp_all add: stored_row_def derived_ok_fixed)
  have "obj \<in> set (filter (\<lambda>r. natural_key r = (st, c, se, sm)) rows)"
    by (simp add: f)
  then have mem: "obj \<in> set rows" by simp
  have m: "map (\<lambda>row. if pk row = pk obj then obj else row) rows = rows"
  proof (rule map_idI)
    fix row assume "row \<in> set rows"
    then show "(if pk row = pk obj then obj else row) = row"
      using distinct_pk_unique [OF dp _ mem] by auto
  qed
  show ?thesis
    unfolding update_or_create_update [OF f dp] upd st m ..
qed

text \<open>
  On a table that meets the database constraints \<open>update_or_create\<close> succeeds, keeps the
  constraints, and leaves exactly one row with the key, carrying the defaults; the
  instance it returns is that row with the derived fields computed.
\<close>

lemma update_or_create_table_ok:
  assumes ok: "table_ok rows"
  shows "\<exists>inst created rows' row.
           update_or_create mode now st c se sm ca ex rem by stat rows
             = Inr ((inst, created), rows') \<and>
           table_ok rows' \<and>
           filter (\<lambda>r. natural_key r = (st, c, se, sm)) rows' = [row] \<and>
           inst = auto_calculate row \<and>
           ca_score row = ca \<and> exam_score row = ex \<and> remarks row = rem \<and>
           submitted_by row = by \<and> status row = stat \<and>
           (mode = SaveAllFields \<or> created \<longrightarrow> derived_ok row) \<and>
           (\<forall>r\<in>set rows'. natural_key r \<noteq> (st, c, se, sm) \<longrightarrow> r \<in> set rows) \<and>
           length rows' = (if created then Suc (length rows) else length rows)"
proof -
  from ok have dp: "distinct (map pk rows)" and dk: "distinct (map natural_key rows)"
    by (simp_all add: table_ok_def)
  from filter_key_cases [OF dk, of "(st, c, se, sm)"]
  consider (create) "filter (\<lambda>r. natural_key r = (st, c, se, sm)) rows = []"
    | (update) obj where "filter (\<lambda>r. natural_key r = (st, c, se, sm)) rows = [obj]"
    by blast
  then show ?thesis
  proof cases
    case create
    let ?new = "auto_calculate (new_result (next_pk rows) now st c se sm ca ex rem by stat)"
    have pknew: "pk ?new = next_pk rows"
      by (simp add: auto_calculate_keeps new_result_fields)
    have keynew: "natural_key ?new = (st, c, se, sm)"
      by (simp add: natural_key_auto_calculate new_result_fields)
    have nokey: "\<forall>r\<in>set rows. natural_key r \<noteq> (st, c, se, sm)"
      using create by (simp add: filter_empty_conv)
    have fresh: "\<forall>r\<in>set rows. pk r \<noteq> next_pk rows"
      by (simp add: next_pk_fresh)
    have t: "table_ok (rows @ [?new])"
      using dp dk nokey fresh by (auto simp add: table_ok_def pknew keynew)
    have f: "filter (\<lambda>r. natural_key r = (st, c, se, sm)) (rows @ [?new]) = [?new]"
      using create by (simp add: keynew)
    have o: "\<forall>r\<in>set (rows @ [?new]). natural_key r \<noteq> (st, c, se, sm) \<longrightarrow> r \<in> set rows"
      by (auto simp add: keynew)
    have i: "?new = auto_calculate ?new"
      by (simp add: auto_calculate_idem)
    have fields: "ca_score ?new = ca" "exam_score ?new = ex" "remarks ?new = rem"
      "submitted_by ?new = by" "status ?new = stat"
      by (simp_all add: auto_calculate_keeps new_result_fields)
    have d: "mode = SaveAllFields \<or> True \<longrightarrow> derived_ok ?new"
      by (simp add: auto_calculate_derived_ok)
    have l: "length (rows @ [?new]) = (if True then Suc (length rows) else length rows)"
      by simp
    from update_or_create_create [OF create, of mode now ca ex rem "by" stat] t f i fields d o l
    show ?thesis by blast
  next
    case update
    let ?upd = "set_defaults obj ca ex rem by stat"
    let ?row = "stored_row mode ?upd"
    let ?rows' = "map (\<lambda>row. if pk row = pk obj then ?row else row) rows"
    have "obj \<in> set (filter (\<lambda>r. natural_key r = (st, c, se, sm)) rows)"
      by (simp add: update)
    then have mem: "obj \<in> set rows" and keyobj: "natural_key obj = (st, c, se, sm)"
      by simp_all
    have p: "pk ?row = pk obj"
      by (simp add: stored_row_keeps set_defaults_keeps)
    have k: "natural_key ?row = natural_key obj"
      by (simp add: stored_row_keeps set_defaults_keeps)
    note rr = replace_row [OF dp mem p k]
    have t: "table_ok ?rows'"
      unfolding table_ok_def rr(1) rr(2) using dp dk by simp
    have f: "filter (\<lambda>r. natural_key r = (st, c, se, sm)) ?rows' = [?row]"
      using rr(3) unfolding keyobj update by simp
    have o: "\<forall>r\<in>set ?rows'. natural_key r \<noteq> (st, c, se, sm) \<longrightarrow> r \<in> set rows"
      by (auto simp add: k keyobj split: if_splits)
    have i: "auto_calculate ?upd = auto_calculate ?row"
      by (simp add: stored_row_keeps)
    have fields: "ca_score ?row = ca" "exam_score ?row = ex" "remarks ?row = rem"
      "submitted_by ?row = by" "status ?row = stat"
      by (simp_all add: stored_row_keeps set_defaults_keeps)
    have d: "mode = SaveAllFields \<or> False \<longrightarrow> derived_ok ?row"
      by (simp add: stored_row_def auto_calculate_derived_ok)
    have l: "length ?rows' = (if False then Suc (length rows) else length rows)"
      by simp
    from update_or_create_update [OF update dp, of mode now ca ex rem "by" stat]
      t f i fields d o l
    show ?thesis by blast
  qed
qed

section \<open>Grading: properties\<close>

lemma auto_calculate_total:
  "total_score (auto_calculate r) = ca_score r + exam_score r"
  by (simp add: auto_calculate_def Let_def)

lemma auto_calculate_grade:
  "(grade (auto_calculate r), grade_point (auto_calculate r)) =
     get_grade_from_score (ca_score r + exam_score r)"
  by (simp add: auto_calculate_def get_grade_from_score_def Let_def)

text \<open>
  C2. For a total between 0 and 100 the classification is the one of the fixed bands:
  A/5 from 70, B/4 from 60 below 70, C/3 from 50 below 60, D/2 from 45 below 50,
  E/1 from 40 below 45, F/0 below 40; the bands are exhaustive and exclusive, 40.00 is an
  E and 39.99 is an F. The helper and the record-save path are both covered.
\<close>

theorem C2_grade_bands:
  "0 \<le> t \<and> t \<le> 100 \<longrightarrow>
     (70 \<le> t \<longleftrightarrow> get_grade_from_score t = (''A'', 5)) \<and>
     (60 \<le> t \<and> t < 70 \<longleftrightarrow> get_grade_from_score t = (''B'', 4)) \<and>
     (50 \<le> t \<and> t < 60 \<longleftrightarrow> get_grade_from_score t = (''C'', 3)) \<and>
     (45 \<le> t \<and> t < 50 \<longleftrightarrow> get_grade_from_score t = (''D'', 2)) \<and>
     (40 \<le> t \<and> t < 45 \<longleftrightarrow> get_grade_from_score t = (''E'', 1)) \<and>
     (t < 40 \<longleftrightarrow> get_grade_from_score t = (''F'', 0)) \<and>
     get_grade_from_score 40.00 = (''E'', 1) \<and>
     get_grade_from_score 39.99 = (''F'', 0) \<and>
     (ca_score r + exam_score r = t \<longrightarrow>
        (grade (fst (save r rows)), grade_point (fst (save r rows))) = get_grade_from_score t)"
  by (simp add: get_grade_from_score_def save_def Let_def auto_calculate_def)

theorem C2_grade_bands_witness:
  "(0::real) \<le> 40 \<and> (40::real) \<le> 100 \<and>
   ca_score (example_row 1 1 1 10 30 7 Draft) + exam_score (example_row 1 1 1 10 30 7 Draft) = 40 \<and>
   get_grade_from_score 40 = (''E'', 1) \<and>
   \<not> (get_grade_from_score 40 = (''F'', 0)) \<and> \<not> (get_grade_from_score 40 = (''D'', 2)) \<and>
   (grade (fst (save (example_row 1 1 1 10 30 7 Draft) [])),
    grade_point (fst (save (example_row 1 1 1 10 30 7 Draft) []))) = (''E'', 1)"
proof -
  have s: "ca_score (example_row 1 1 1 10 30 7 Draft) + exam_score (example_row 1 1 1 10 30 7 Draft) = 40"
    by (simp add: example_row_fields)
  from C2_grade_bands [of 40 "example_row 1 1 1 10 30 7 Draft" "[]"] s
  show ?thesis by simp
qed

text \<open>
  C10. The helper \<open>get_grade_from_score\<close> and the grading inlined in \<open>Result.save\<close> agree:
  a record saved with \<open>ca_score + exam_score = t\<close> carries exactly the pair the helper
  returns for \<open>t\<close>, in the instance and in the row written.
\<close>

theorem C10_helper_matches_save:
  "ca_score r + exam_score r = t \<Longrightarrow>
     (grade (fst (save r rows)), grade_point (fst (save r rows))) = get_grade_from_score t \<and>
     total_score (fst (save r rows)) = t \<and>
     fst (save r rows) \<in> set (snd (save r rows))"
  by (auto simp add: save_def Let_def auto_calculate_grade auto_calculate_total Model_save_def)

theorem C10_helper_matches_save_witness:
  "ca_score (example_row 1 1 1 25.5 34.5 7 Draft) + exam_score (example_row 1 1 1 25.5 34.5 7 Draft) = 60 \<and>
   (grade (fst (save (example_row 1 1 1 25.5 34.5 7 Draft) [])),
    grade_point (fst (save (example_row 1 1 1 25.5 34.5 7 Draft) []))) = get_grade_from_score 60 \<and>
   total_score (fst (save (example_row 1 1 1 25.5 34.5 7 Draft) [])) = 60"
proof -
  have s: "ca_score (example_row 1 1 1 25.5 34.5 7 Draft) + exam_score (example_row 1 1 1 25.5 34.5 7 Draft) = 60"
    by (simp add: example_row_fields)
  from C10_helper_matches_save [OF s, of "[]"] s
  show ?thesis by blast
qed

section \<open>Grade point average: properties\<close>

lemma round_half_even_near: "\<bar>of_int (round_half_even x) - x\<bar> \<le> 1 / 2"
  unfolding round_half_even_def Let_def by (auto; linarith)

lemma round_half_even_of_int: "round_half_even (of_int k) = k"
  by (simp add: round_half_even_def)

lemma round2_near: "\<bar>round2 x - x\<bar> \<le> 1 / 200"
proof -
  have "\<bar>of_int (round_half_even (x * 100)) - x * 100\<bar> \<le> 1 / 2"
    by (rule round_half_even_near)
  then show ?thesis unfolding round2_def by (simp add: field_simps abs_le_iff)
qed

lemma round2_exact: "x * 100 = of_int k \<Longrightarrow> round2 x = x"
  by (simp add: round2_def round_half_even_of_int)

lemma round2_hundredths: "round2 x * 100 = of_int (round_half_even (x * 100))"
  by (simp add: round2_def)

text \<open>
  C1, as stated, fails: the value returned is rounded to two decimal places. Three
  verified results with grade points 5, 4 and 4 on courses of one credit unit have the
  weighted average 13/3, and \<open>calculate_gpa\<close> returns 4.33.
\<close>

theorem C1_exact_average_counterexample:
  "calculate_gpa example_credit_units
     [example_row 1 1 2 30 45 7 Verified, example_row 2 1 3 30 35 7 Verified,
      example_row 3 1 4 30 35 7 Verified]
   \<noteq> spec_weighted_average example_credit_units
     [example_row 1 1 2 30 45 7 Verified, example_row 2 1 3 30 35 7 Verified,
      example_row 3 1 4 30 35 7 Verified]"
  by (simp add: calculate_gpa_def spec_weighted_average_def example_credit_units_def
       example_row_def auto_calculate_def round2_def round_half_even_def Let_def)

text \<open>
  C1, amended. \<open>calculate_gpa\<close> returns 0 for the empty record set and for a record set
  whose credit units sum to 0; for every other record set it returns the credit-unit
  weighted average of the grade points rounded to two decimal places (ties to even): a
  multiple of 0.01 within 0.005 of the average, and the average itself when that is a
  multiple of 0.01.
\<close>

theorem C1_gpa_rounded_average:
  "calculate_gpa cu [] = 0 \<and>
   ((\<Sum>r\<leftarrow>rs. cu (course r)) = 0 \<longrightarrow> calculate_gpa cu rs = 0) \<and>
   (rs \<noteq> [] \<and> (\<Sum>r\<leftarrow>rs. cu (course r)) \<noteq> 0 \<longrightarrow>
      calculate_gpa cu rs = round2 (spec_weighted_average cu rs) \<and>
      \<bar>calculate_gpa cu rs - spec_weighted_average cu rs\<bar> \<le> 1 / 200 \<and>
      (\<exists>k::int. calculate_gpa cu rs * 100 = of_int k) \<and>
      ((\<exists>k::int. spec_weighted_average cu rs * 100 = of_int k) \<longrightarrow>
         calculate_gpa cu rs = spec_weighted_average cu rs))"
proof -
  have a: "calculate_gpa cu [] = 0"
    by (simp add: calculate_gpa_def)
  have b: "(\<Sum>r\<leftarrow>rs. cu (course r)) = 0 \<longrightarrow> calculate_gpa cu rs = 0"
    by (simp add: calculate_gpa_def Let_def)
  have c: "calculate_gpa cu rs = round2 (spec_weighted_average cu rs)"
    if "rs \<noteq> []" "(\<Sum>r\<leftarrow>rs. cu (course r)) \<noteq> 0"
    using that by (simp add: calculate_gpa_def spec_weighted_average_def Let_def)
  show ?thesis
    using a b c round2_near [of "spec_weighted_average cu rs"]
      round2_hundredths [of "spec_weighted_average cu rs"]
      round2_exact [of "spec_weighted_average cu rs"]
    by auto
qed

theorem C1_gpa_rounded_average_witness:
  "[example_row 1 1 1 30 45 7 Verified, example_row 2 1 2 30 25 7 Verified] \<noteq> [] \<and>
   (\<Sum>r\<leftarrow>[example_row 1 1 1 30 45 7 Verified, example_row 2 1 2 30 25 7 Verified].
       example_credit_units (course r)) \<noteq> 0 \<and>
   spec_weighted_average example_credit_units
     [example_row 1 1 1 30 45 7 Verified, example_row 2 1 2 30 25 7 Verified] * 100 = of_int 450 \<and>
   calculate_gpa example_credit_units
     [example_row 1 1 1 30 45 7 Verified, example_row 2 1 2 30 25 7 Verified] = 4.5"
proof -
  let ?rs = "[example_row 1 1 1 30 45 7 Verified, example_row 2 1 2 30 25 7 Verified]"
  have h1: "?rs \<noteq> []" by simp
  have h2: "(\<Sum>r\<leftarrow>?rs. example_credit_units (course r)) \<noteq> 0"
    by (simp add: example_credit_units_def example_row_def auto_calculate_def)
  have h3: "spec_weighted_average example_credit_units ?rs * 100 = of_int 450"
    by (simp add: spec_weighted_average_def example_credit_units_def example_row_def
         auto_calculate_def)
  have h4: "spec_weighted_average example_credit_units ?rs = 4.5"
    using h3 by simp
  from C1_gpa_rounded_average [of example_credit_units ?rs] h1 h2 h3
  have "calculate_gpa example_credit_units ?rs = spec_weighted_average example_credit_units ?rs"
    by blast
  with h1 h2 h3 h4 show ?thesis by simp
qed

section \<open>Upsert: properties\<close>

lemma save_result_ajax_in_range:
  assumes "0 \<le> ca" "ca \<le> 40" "0 \<le> ex" "ex \<le> 60"
    and "update_or_create mode now st c se sm ca ex rem staff Draft rows
           = Inr ((obj, created), rows')"
  shows "save_result_ajax mode now staff st c se sm (Number ca) (Number ex) rem rows =
           (SaveOk (total_score obj) (grade obj) (grade_point obj), rows')"
  using assms by (simp add: save_result_ajax_def float_of_def)

text \<open>
  C9. On a table that meets the database constraints, an upsert for a natural key succeeds
  and leaves exactly one row with that key; the same call made again (at any later time)
  returns the same record and leaves the table as it is, so the total, grade and grade
  point are unchanged. This holds for the \<open>update_or_create\<close> call of both entry views,
  and for \<open>save_result_ajax\<close> with scores in range, in either save mode of the framework.
\<close>

theorem C9_upsert_idempotent:
  assumes ok: "table_ok rows"
  shows "\<exists>obj created rows1.
           update_or_create mode now st c se sm ca ex rem by stat rows
             = Inr ((obj, created), rows1) \<and>
           update_or_create mode now' st c se sm ca ex rem by stat rows1
             = Inr ((obj, False), rows1) \<and>
           length (filter (\<lambda>r. natural_key r = (st, c, se, sm)) rows1) = 1 \<and>
           table_ok rows1 \<and>
           total_score obj = ca + ex \<and>
           (grade obj, grade_point obj) = get_grade_from_score (ca + ex) \<and>
           (0 \<le> ca \<and> ca \<le> 40 \<and> 0 \<le> ex \<and> ex \<le> 60 \<and> stat = Draft \<longrightarrow>
              save_result_ajax mode now by st c se sm (Number ca) (Number ex) rem rows =
                (SaveOk (total_score obj) (grade obj) (grade_point obj), rows1) \<and>
              save_result_ajax mode now' by st c se sm (Number ca) (Number ex) rem rows1 =
                (SaveOk (total_score obj) (grade obj) (grade_point obj), rows1))"
proof -
  from update_or_create_table_ok [OF ok, of mode now st c se sm ca ex rem "by" stat]
  obtain obj created rows1 row where
    first: "update_or_create mode now st c se sm ca ex rem by stat rows
              = Inr ((obj, created), rows1)"
    and t: "table_ok rows1"
    and f: "filter (\<lambda>r. natural_key r = (st, c, se, sm)) rows1 = [row]"
    and inst: "obj = auto_calculate row"
    and same: "ca_score row = ca" "exam_score row = ex" "remarks row = rem"
      "submitted_by row = by" "status row = stat"
    and d: "mode = SaveAllFields \<or> created \<longrightarrow> derived_ok row"
    by blast
  from t have dp: "distinct (map pk rows1)"
    by (simp add: table_ok_def)
  from d have d': "mode = SaveAllFields \<longrightarrow> derived_ok row"
    by blast
  have second: "update_or_create mode now' st c se sm ca ex rem by stat rows1
                  = Inr ((obj, False), rows1)"
    unfolding inst by (rule update_or_create_fixed [OF f dp same d'])
  have "derived_ok obj"
    unfolding inst by (rule auto_calculate_derived_ok)
  moreover have "ca_score obj = ca" "exam_score obj = ex"
    unfolding inst by (simp_all add: auto_calculate_keeps same)
  ultimately have tot: "total_score obj = ca + ex"
    and gr: "(grade obj, grade_point obj) = get_grade_from_score (ca + ex)"
    by (simp_all add: derived_ok_def)
  have views: "save_result_ajax mode now by st c se sm (Number ca) (Number ex) rem rows =
                (SaveOk (total_score obj) (grade obj) (grade_point obj), rows1) \<and>
              save_result_ajax mode now' by st c se sm (Number ca) (Number ex) rem rows1 =
                (SaveOk (total_score obj) (grade obj) (grade_point obj), rows1)"
    if "0 \<le> ca" "ca \<le> 40" "0 \<le> ex" "ex \<le> 60" "stat = Draft"
    using save_result_ajax_in_range [OF that(1-4) first [unfolded that(5)]]
      save_result_ajax_in_range [OF that(1-4) second [unfolded that(5)]]
    by simp
  have one: "length (filter (\<lambda>r. natural_key r = (st, c, se, sm)) rows1) = 1"
    by (simp add: f)
  from first second one t tot gr views show ?thesis
    by blast
qed

theorem C9_upsert_idempotent_witness:
  "table_ok [example_row 1 1 1 10 20 7 Pending, example_row 2 2 1 30 45 7 Draft] \<and>
   (\<exists>obj created rows1.
      update_or_create SaveUpdateFields 5 1 1 1 1 30 40 ''ok'' 7 Draft
        [example_row 1 1 1 10 20 7 Pending, example_row 2 2 1 30 45 7 Draft]
        = Inr ((obj, created), rows1) \<and>
      update_or_create SaveUpdateFields 6 1 1 1 1 30 40 ''ok'' 7 Draft rows1
        = Inr ((obj, False), rows1) \<and>
      length (filter (\<lambda>r. natural_key r = (1, 1, 1, 1)) rows1) = 1 \<and>
      total_score obj = 70 \<and>
      save_result_ajax SaveUpdateFields 6 7 1 1 1 1 (Number 30) (Number 40) ''ok'' rows1
        = (SaveOk 70 ''A'' 5, rows1))"
proof -
  let ?rows = "[example_row 1 1 1 10 20 7 Pending, example_row 2 2 1 30 45 7 Draft]"
  have ok: "table_ok ?rows"
    by (simp add: table_ok_def example_row_fields)
  from C9_upsert_idempotent [OF ok, of SaveUpdateFields 5 1 1 1 1 30 40 "''ok''" 7 Draft 6]
  obtain obj created rows1 where
    a: "update_or_create SaveUpdateFields 5 1 1 1 1 30 40 ''ok'' 7 Draft ?rows
          = Inr ((obj, created), rows1)"
    and b: "update_or_create SaveUpdateFields 6 1 1 1 1 30 40 ''ok'' 7 Draft rows1
          = Inr ((obj, False), rows1)"
    and c: "length (filter (\<lambda>r. natural_key r = (1, 1, 1, 1)) rows1) = 1"
    and d: "total_score obj = 30 + 40"
    and e: "(grade obj, grade_point obj) = get_grade_from_score (30 + 40)"
    and f: "save_result_ajax SaveUpdateFields 6 7 1 1 1 1 (Number 30) (Number 40) ''ok'' rows1 =
              (SaveOk (total_score obj) (grade obj) (grade_point obj), rows1)"
    by auto
  from e have g: "grade obj = ''A''" "grade_point obj = 5"
    by (simp_all add: get_grade_from_score_def)
  from d have h: "total_score obj = 70" by simp
  show ?thesis
    using ok a b c h f [unfolded g h] by blast
qed

lemma save_result_ajax_never_bad_request:
  assumes "0 \<le> ca" "ca \<le> 40" "0 \<le> ex" "ex \<le> 60"
  shows "fst (save_result_ajax mode now staff st c se sm (Number ca) (Number ex) rem rows)
           \<noteq> SaveBadRequest msg"
  using assms
  by (simp add: save_result_ajax_def float_of_def split: sum.splits prod.splits)

text \<open>
  C8. An upsert whose CA score is outside [0, 40] or whose exam score is outside [0, 60]
  is refused with a validation error and writes nothing (\<open>save_result_ajax\<close> answers 400
  and the loop of \<open>result_entry_view\<close> records an error for the student; \<open>Result.clean\<close>
  raises). With both scores in range, bounds included, the validation passes: no
  validation error is returned, \<open>Result.clean\<close> accepts, and on a table that meets the
  database constraints the result is saved.
\<close>

theorem C8_score_validation:
  "((ca < 0 \<or> 40 < ca \<or> ex < 0 \<or> 60 < ex) \<longrightarrow>
      (\<exists>msg. save_result_ajax mode now staff st c se sm (Number ca) (Number ex) rem rows =
               (SaveBadRequest msg, rows)) \<and>
      (\<exists>e. entry_loop mode now staff a (\<lambda>_. Number ca) (\<lambda>_. Number ex) rem_in [st] n errs rows =
               (None, n, errs @ [e], rows)) \<and>
      (ca_score r = ca \<and> exam_score r = ex \<longrightarrow> (\<exists>e. clean r = Some e))) \<and>
   ((0 \<le> ca \<and> ca \<le> 40 \<and> 0 \<le> ex \<and> ex \<le> 60) \<longrightarrow>
      (\<forall>msg. fst (save_result_ajax mode now staff st c se sm (Number ca) (Number ex) rem rows)
               \<noteq> SaveBadRequest msg) \<and>
      (table_ok rows \<longrightarrow>
         fst (save_result_ajax mode now staff st c se sm (Number ca) (Number ex) rem rows) =
           SaveOk (ca + ex) (fst (get_grade_from_score (ca + ex)))
             (snd (get_grade_from_score (ca + ex)))) \<and>
      (ca_score r = ca \<and> exam_score r = ex \<longrightarrow> clean r = None))"
proof (intro conjI impI)
  assume out: "ca < 0 \<or> 40 < ca \<or> ex < 0 \<or> 60 < ex"
  then show "\<exists>msg. save_result_ajax mode now staff st c se sm (Number ca) (Number ex) rem rows =
               (SaveBadRequest msg, rows)"
    by (auto simp add: save_result_ajax_def float_of_def)
  from out show "\<exists>e. entry_loop mode now staff a (\<lambda>_. Number ca) (\<lambda>_. Number ex) rem_in [st] n errs rows =
               (None, n, errs @ [e], rows)"
    by (auto simp add: float_of_def)
  assume "ca_score r = ca \<and> exam_score r = ex"
  with out show "\<exists>e. clean r = Some e"
    by (auto simp add: clean_def)
next
  assume inr: "0 \<le> ca \<and> ca \<le> 40 \<and> 0 \<le> ex \<and> ex \<le> 60"
  then show "\<forall>msg. fst (save_result_ajax mode now staff st c se sm (Number ca) (Number ex) rem rows)
               \<noteq> SaveBadRequest msg"
    by (simp add: save_result_ajax_never_bad_request)
  {
    assume "ca_score r = ca \<and> exam_score r = ex"
    with inr show "clean r = None"
      by (auto simp add: clean_def)
  }
  assume ok: "table_ok rows"
  from update_or_create_table_ok [OF ok, of mode now st c se sm ca ex rem staff Draft]
  obtain obj created rows1 row where
    first: "update_or_create mode now st c se sm ca ex rem staff Draft rows
              = Inr ((obj, created), rows1)"
    and inst: "obj = auto_calculate row"
    and same: "ca_score row = ca" "exam_score row = ex"
    by blast
  from inr have r: "0 \<le> ca" "ca \<le> 40" "0 \<le> ex" "ex \<le> 60" by simp_all
  have "derived_ok obj"
    unfolding inst by (rule auto_calculate_derived_ok)
  moreover have "ca_score obj = ca" "exam_score obj = ex"
    unfolding inst by (simp_all add: auto_calculate_keeps same)
  ultimately have tot: "total_score obj = ca + ex"
    and gr: "get_grade_from_score (ca + ex) = (grade obj, grade_point obj)"
    by (simp_all add: derived_ok_def)
  show "fst (save_result_ajax mode now staff st c se sm (Number ca) (Number ex) rem rows) =
           SaveOk (ca + ex) (fst (get_grade_from_score (ca + ex)))
             (snd (get_grade_from_score (ca + ex)))"
    by (simp add: save_result_ajax_in_range [OF r first] tot gr)
qed

theorem C8_score_validation_witness:
  "((40.5::real) < 0 \<or> (40::real) < 40.5 \<or> (10::real) < 0 \<or> (60::real) < 10) \<and>
   ca_score (example_row 1 1 1 40.5 10 7 Draft) = 40.5 \<and>
   exam_score (example_row 1 1 1 40.5 10 7 Draft) = 10 \<and>
   (\<exists>msg. save_result_ajax SaveAllFields 5 7 1 1 1 1 (Number 40.5) (Number 10) [] []
            = (SaveBadRequest msg, [])) \<and>
   (\<exists>e. clean (example_row 1 1 1 40.5 10 7 Draft) = Some e) \<and>
   (0 \<le> (40::real) \<and> (40::real) \<le> 40 \<and> 0 \<le> (60::real) \<and> (60::real) \<le> 60) \<and> table_ok [] \<and>
   ca_score (example_row 1 1 1 40 60 7 Draft) = 40 \<and>
   exam_score (example_row 1 1 1 40 60 7 Draft) = 60 \<and>
   fst (save_result_ajax SaveAllFields 5 7 1 1 1 1 (Number 40) (Number 60) [] [])
     = SaveOk 100 ''A'' 5 \<and>
   clean (example_row 1 1 1 40 60 7 Draft) = None"
proof -
  have t: "table_ok []" by (simp add: table_ok_def)
  have g: "get_grade_from_score (40 + 60) = (''A'', 5)"
    by (simp add: get_grade_from_score_def)
  have f: "ca_score (example_row 1 1 1 40.5 10 7 Draft) = 40.5"
    "exam_score (example_row 1 1 1 40.5 10 7 Draft) = 10"
    "ca_score (example_row 1 1 1 40 60 7 Draft) = 40"
    "exam_score (example_row 1 1 1 40 60 7 Draft) = 60"
    by (simp_all add: example_row_def auto_calculate_keeps)
  from C8_score_validation [where ca="40.5" and ex=10 and mode=SaveAllFields and now=5
      and staff=7 and st=1 and c=1
      and se=1 and sm=1 and rem="[]" and rows="[]" and r="example_row 1 1 1 40.5 10 7 Draft"] f
  have a: "\<exists>msg. save_result_ajax SaveAllFields 5 7 1 1 1 1 (Number 40.5) (Number 10) [] []
                  = (SaveBadRequest msg, [])"
    and a': "\<exists>e. clean (example_row 1 1 1 40.5 10 7 Draft) = Some e"
    by simp_all
  from C8_score_validation [where ca=40 and ex=60 and mode=SaveAllFields and now=5
      and staff=7 and st=1 and c=1
      and se=1 and sm=1 and rem="[]" and rows="[]" and r="example_row 1 1 1 40 60 7 Draft"] t f
  have b: "fst (save_result_ajax SaveAllFields 5 7 1 1 1 1 (Number 40) (Number 60) [] []) =
           SaveOk (40 + 60) (fst (get_grade_from_score (40 + 60))) (snd (get_grade_from_score (40 + 60)))"
    and b': "clean (example_row 1 1 1 40 60 7 Draft) = None"
    by simp_all
  show ?thesis using a a' b b' t f unfolding g by simp
qed

section \<open>Editing, rejecting and re-entering: properties\<close>

text \<open>The edit view leaves the table alone unless the result is a draft or rejected.\<close>

lemma result_edit_view_guard:
  "get_object_or_404 k rows = Some r \<Longrightarrow> status r \<noteq> Draft \<Longrightarrow> status r \<noteq> Rejected \<Longrightarrow>
     snd (result_edit_view method staff ca_in exam_in rem k rows) = rows \<and>
     fst (result_edit_view method staff ca_in exam_in rem k rows)
       \<in> {EditPermissionDenied, EditNotEditable}"
  by (simp add: result_edit_view_def)

text \<open>
  C5. The edit view refuses a verified result, but the upsert of the two entry views has
  no such guard: a verified result with scores 30 and 45 (grade A), re-entered with the
  scores 10 and 20, gets the new scores and is demoted to a draft, in either save mode
  of the framework.
\<close>

theorem C5_verified_overwritten_by_upsert:
  "result_edit_view POST 7 (Number 10) (Number 20) [] 1
       [(example_row 1 1 1 30 45 7 Verified)\<lparr>verified_by := Some 8, verified_at := Some 5\<rparr>] =
     (EditNotEditable,
       [(example_row 1 1 1 30 45 7 Verified)\<lparr>verified_by := Some 8, verified_at := Some 5\<rparr>]) \<and>
   save_result_ajax SaveAllFields 9 7 1 1 1 1 (Number 10) (Number 20) []
       [(example_row 1 1 1 30 45 7 Verified)\<lparr>verified_by := Some 8, verified_at := Some 5\<rparr>] =
     (SaveOk 30 ''F'' 0,
       [(example_row 1 1 1 10 20 7 Draft)\<lparr>verified_by := Some 8, verified_at := Some 5\<rparr>]) \<and>
   save_result_ajax SaveUpdateFields 9 7 1 1 1 1 (Number 10) (Number 20) []
       [(example_row 1 1 1 30 45 7 Verified)\<lparr>verified_by := Some 8, verified_at := Some 5\<rparr>] =
     (SaveOk 30 ''F'' 0,
       [(example_row 1 1 1 30 45 7 Draft)
          \<lparr>ca_score := 10, exam_score := 20, verified_by := Some 8, verified_at := Some 5\<rparr>]) \<and>
   result_entry_view POST SaveAllFields 9 7 [example_allocation] [example_registration 1]
       example_ca_in example_exam_in example_rem_in 1
       [(example_row 1 1 1 30 45 7 Verified)\<lparr>verified_by := Some 8, verified_at := Some 5\<rparr>] =
     (EntrySaved 1 [],
       [(example_row 1 1 1 10 20 7 Draft)\<lparr>verified_by := Some 8, verified_at := Some 5\<rparr>]) \<and>
   result_entry_view POST SaveUpdateFields 9 7 [example_allocation] [example_registration 1]
       example_ca_in example_exam_in example_rem_in 1
       [(example_row 1 1 1 30 45 7 Verified)\<lparr>verified_by := Some 8, verified_at := Some 5\<rparr>] =
     (EntrySaved 1 [],
       [(example_row 1 1 1 30 45 7 Draft)
          \<lparr>ca_score := 10, exam_score := 20, verified_by := Some 8, verified_at := Some 5\<rparr>]) \<and>
   status ((example_row 1 1 1 30 45 7 Verified)\<lparr>verified_by := Some 8, verified_at := Some 5\<rparr>)
     = Verified \<and>
   ca_score ((example_row 1 1 1 30 45 7 Verified)\<lparr>verified_by := Some 8, verified_at := Some 5\<rparr>)
     = 30 \<and>
   status ((example_row 1 1 1 10 20 7 Draft)\<lparr>verified_by := Some 8, verified_at := Some 5\<rparr>)
     = Draft \<and>
   ca_score ((example_row 1 1 1 10 20 7 Draft)\<lparr>verified_by := Some 8, verified_at := Some 5\<rparr>)
     = 10 \<and>
   status ((example_row 1 1 1 30 45 7 Draft)
          \<lparr>ca_score := 10, exam_score := 20, verified_by := Some 8, verified_at := Some 5\<rparr>)
     = Draft \<and>
   ca_score ((example_row 1 1 1 30 45 7 Draft)
          \<lparr>ca_score := 10, exam_score := 20, verified_by := Some 8, verified_at := Some 5\<rparr>)
     = 10"
  by (simp add: result_edit_view_def get_object_or_404_def save_result_ajax_def float_of_def
      update_or_create_def save_def Model_save_def set_defaults_def result_entry_view_def
      save_update_fields_def Model_save_update_fields_def update_or_create_fields_def
      get_allocation_or_404_def example_allocation_def example_registration_def
      example_ca_in_def example_exam_in_def example_rem_in_def
      approved_registrations_def example_row_def auto_calculate_def Let_def)

lemma get_object_or_404_mem:
  "get_object_or_404 k rows = Some r \<Longrightarrow> r \<in> set rows \<and> pk r = k"
  unfolding get_object_or_404_def by (induction rows) (auto split: if_splits)

lemma get_object_or_404_replaced:
  "obj \<in> set rows \<Longrightarrow> pk new = pk obj \<Longrightarrow>
     get_object_or_404 (pk obj) (map (\<lambda>row. if pk row = pk obj then new else row) rows) = Some new"
  unfolding get_object_or_404_def by (induction rows) auto

lemma filter_key_single:
  assumes "distinct (map natural_key rows)" "obj \<in> set rows"
  shows "filter (\<lambda>r. natural_key r = natural_key obj) rows = [obj]"
proof -
  have mem: "obj \<in> set (filter (\<lambda>r. natural_key r = natural_key obj) rows)"
    using assms(2) by simp
  from filter_key_cases [OF assms(1), of "natural_key obj"]
  consider "filter (\<lambda>r. natural_key r = natural_key obj) rows = []"
    | x where "filter (\<lambda>r. natural_key r = natural_key obj) rows = [x]"
    by blast
  then show ?thesis
  proof cases
    case 1
    with mem show ?thesis by (simp del: set_filter)
  next
    case (2 x)
    with mem have "obj = x" by (simp del: set_filter)
    with 2 show ?thesis by simp
  qed
qed

text \<open>Saving an instance that was read from the table and kept its keys.\<close>

lemma save_existing:
  assumes ok: "table_ok rows" and mem: "obj \<in> set rows"
    and p: "pk new = pk obj" and k: "natural_key new = natural_key obj"
  shows "table_ok (snd (save new rows))"
    and "get_object_or_404 (pk obj) (snd (save new rows)) = Some (auto_calculate new)"
    and "filter (\<lambda>r. natural_key r = natural_key obj) (snd (save new rows)) = [auto_calculate new]"
    and "length (snd (save new rows)) = length rows"
proof -
  from ok have dp: "distinct (map pk rows)" and dk: "distinct (map natural_key rows)"
    by (simp_all add: table_ok_def)
  have p': "pk (auto_calculate new) = pk obj"
    by (simp add: auto_calculate_keeps p)
  have k': "natural_key (auto_calculate new) = natural_key obj"
    by (simp add: natural_key_auto_calculate k)
  have s: "snd (save new rows) =
             map (\<lambda>row. if pk row = pk obj then auto_calculate new else row) rows"
    by (simp add: save_def Let_def Model_save_update [OF mem p'])
  note rr = replace_row [OF dp mem p' k']
  show "table_ok (snd (save new rows))"
    unfolding s table_ok_def rr(1) rr(2) using dp dk by simp
  show "get_object_or_404 (pk obj) (snd (save new rows)) = Some (auto_calculate new)"
    unfolding s by (rule get_object_or_404_replaced [OF mem p'])
  show "filter (\<lambda>r. natural_key r = natural_key obj) (snd (save new rows)) = [auto_calculate new]"
    unfolding s rr(3) filter_key_single [OF dk mem] by simp
  show "length (snd (save new rows)) = length rows"
    unfolding s by simp
qed

text \<open>
  C7, as stated, fails for an empty reason: the remarks are left as they are, and nothing
  is prepended.
\<close>

theorem C7_empty_reason_counterexample:
  "result_reject_view POST 9 (Some 8) [] 1 [(example_row 1 1 1 30 45 7 Pending)\<lparr>remarks := ''late''\<rparr>] =
     (VerifyDone,
      [(example_row 1 1 1 30 45 7 Rejected)
         \<lparr>remarks := ''late'', verified_by := Some 8, verified_at := Some 9\<rparr>]) \<and>
   remarks ((example_row 1 1 1 30 45 7 Rejected)
         \<lparr>remarks := ''late'', verified_by := Some 8, verified_at := Some 9\<rparr>) = ''late'' \<and>
   ''late'' \<noteq> ''REJECTED: '' @ [] @ ''late'' \<and>
   ''late'' \<noteq> rejected_remarks [] ''late'' \<and>
   take (length ''REJECTED: '') ''late'' \<noteq> ''REJECTED: ''"
  by (simp add: result_reject_view_def get_object_or_404_def save_def Model_save_def
      rejected_remarks_def example_row_def auto_calculate_def Let_def)

text \<open>
  C7, amended. Rejecting a result sets its status to rejected and records the verifier and
  the time; when the reason is not empty, \<open>REJECTED: <reason>\<close> and a newline are put before
  the remarks, and with an empty reason the remarks are unchanged. A later upsert on the
  natural key of the result updates that row and resets its status to draft.
\<close>

theorem C7_reject_then_upsert:
  assumes ok: "table_ok rows" and found: "get_object_or_404 k rows = Some r"
  shows "\<exists>r' rows1.
           result_reject_view POST now (Some v) reason k rows = (VerifyDone, rows1) \<and>
           get_object_or_404 k rows1 = Some r' \<and>
           status r' = Rejected \<and> verified_by r' = Some v \<and> verified_at r' = Some now \<and>
           (reason \<noteq> [] \<longrightarrow> remarks r' = ''REJECTED: '' @ reason @ [CHR 0x0A] @ remarks r) \<and>
           (reason = [] \<longrightarrow> remarks r' = remarks r) \<and>
           ca_score r' = ca_score r \<and> exam_score r' = exam_score r \<and>
           natural_key r' = natural_key r \<and> length rows1 = length rows \<and>
           (\<exists>obj rows2 row2.
              update_or_create mode now' (student r) (course r) (session r) (semester r)
                ca ex rem by Draft rows1 = Inr ((obj, False), rows2) \<and>
              get_object_or_404 k rows2 = Some row2 \<and> status row2 = Draft \<and>
              ca_score row2 = ca \<and> exam_score row2 = ex \<and> status obj = Draft \<and>
              length rows2 = length rows)"
proof -
  define base where "base = r\<lparr>status := Rejected, verified_by := Some v, verified_at := Some now\<rparr>"
  define rej where
    "rej = (if reason \<noteq> [] then base\<lparr>remarks := rejected_remarks reason (remarks r)\<rparr> else base)"
  from get_object_or_404_mem [OF found] have mem: "r \<in> set rows" and pkr: "pk r = k"
    by simp_all
  have view: "result_reject_view POST now (Some v) reason k rows = (VerifyDone, snd (save rej rows))"
    by (simp add: result_reject_view_def found rej_def base_def Let_def)
  have p: "pk rej = pk r" and nk: "natural_key rej = natural_key r"
    by (simp_all add: rej_def base_def natural_key_def)
  have fields: "status rej = Rejected" "verified_by rej = Some v" "verified_at rej = Some now"
    "ca_score rej = ca_score r" "exam_score rej = exam_score r"
    "reason \<noteq> [] \<longrightarrow> remarks rej = ''REJECTED: '' @ reason @ [CHR 0x0A] @ remarks r"
    "reason = [] \<longrightarrow> remarks rej = remarks r"
    by (simp_all add: rej_def base_def rejected_remarks_def)
  note se = save_existing [OF ok mem p nk]
  let ?r' = "auto_calculate rej"
  let ?rows1 = "snd (save rej rows)"
  from se(1) have dp1: "distinct (map pk ?rows1)"
    by (simp add: table_ok_def)
  have key: "natural_key r = (student r, course r, session r, semester r)"
    by (simp add: natural_key_def)
  have f: "filter (\<lambda>x. natural_key x = (student r, course r, session r, semester r)) ?rows1 = [?r']"
    using se(3) unfolding key .
  let ?upd = "set_defaults ?r' ca ex rem by Draft"
  let ?obj = "auto_calculate ?upd"
  let ?row2 = "stored_row mode ?upd"
  let ?rows2 = "map (\<lambda>row. if pk row = pk ?r' then ?row2 else row) ?rows1"
  have upd: "update_or_create mode now' (student r) (course r) (session r) (semester r)
                ca ex rem by Draft ?rows1 = Inr ((?obj, False), ?rows2)"
    by (rule update_or_create_update [OF f dp1])
  have pr': "pk ?r' = k"
    by (simp add: auto_calculate_keeps p pkr)
  from get_object_or_404_mem [OF se(2)] have mem1: "?r' \<in> set ?rows1"
    by simp
  have prow: "pk ?row2 = pk ?r'"
    by (simp add: stored_row_keeps set_defaults_keeps)
  have get2: "get_object_or_404 k ?rows2 = Some ?row2"
    using get_object_or_404_replaced [OF mem1 prow] unfolding pr' .
  have second: "\<exists>obj rows2 row2.
              update_or_create mode now' (student r) (course r) (session r) (semester r)
                ca ex rem by Draft ?rows1 = Inr ((obj, False), rows2) \<and>
              get_object_or_404 k rows2 = Some row2 \<and> status row2 = Draft \<and>
              ca_score row2 = ca \<and> exam_score row2 = ex \<and> status obj = Draft \<and>
              length rows2 = length rows"
  proof -
    have "status ?row2 = Draft" "ca_score ?row2 = ca" "exam_score ?row2 = ex"
      by (simp_all add: stored_row_keeps set_defaults_keeps)
    moreover have "status ?obj = Draft"
      by (simp add: auto_calculate_keeps set_defaults_keeps)
    moreover have "length ?rows2 = length rows"
      by (simp add: se(4))
    ultimately show ?thesis
      using upd get2 by blast
  qed
  have "get_object_or_404 k ?rows1 = Some ?r'"
    using se(2) pkr by simp
  moreover have "status ?r' = Rejected" "verified_by ?r' = Some v" "verified_at ?r' = Some now"
    "ca_score ?r' = ca_score r" "exam_score ?r' = exam_score r"
    by (simp_all add: auto_calculate_keeps fields)
  moreover have "reason \<noteq> [] \<longrightarrow> remarks ?r' = ''REJECTED: '' @ reason @ [CHR 0x0A] @ remarks r"
    "reason = [] \<longrightarrow> remarks ?r' = remarks r"
    using fields(6,7) by (simp_all add: auto_calculate_keeps)
  moreover have "natural_key ?r' = natural_key r"
    by (simp add: natural_key_auto_calculate nk)
  moreover note se(4) second view
  ultimately show ?thesis
    by blast
qed

theorem C7_reject_then_upsert_witness:
  "table_ok [example_row 1 1 1 30 45 7 Pending] \<and>
   get_object_or_404 1 [example_row 1 1 1 30 45 7 Pending] = Some (example_row 1 1 1 30 45 7 Pending) \<and>
   ''bad entry'' \<noteq> [] \<and>
   (\<exists>r' rows1.
      result_reject_view POST 9 (Some 8) ''bad entry'' 1 [example_row 1 1 1 30 45 7 Pending]
        = (VerifyDone, rows1) \<and>
      get_object_or_404 1 rows1 = Some r' \<and> status r' = Rejected \<and>
      verified_by r' = Some 8 \<and> verified_at r' = Some 9 \<and>
      remarks r' = ''REJECTED: bad entry'' @ [CHR 0x0A] \<and>
      (\<exists>obj rows2 row2.
         update_or_create SaveUpdateFields 10 1 1 1 1 20 30 [] 7 Draft rows1
           = Inr ((obj, False), rows2) \<and>
         get_object_or_404 1 rows2 = Some row2 \<and> status row2 = Draft))"
proof -
  let ?r = "example_row 1 1 1 30 45 7 Pending"
  have ok: "table_ok [?r]"
    by (simp add: table_ok_def)
  have found: "get_object_or_404 1 [?r] = Some ?r"
    by (simp add: get_object_or_404_def example_row_fields)
  have ne: "''bad entry'' \<noteq> []" by simp
  from C7_reject_then_upsert [OF ok found, of 9 8 "''bad entry''" SaveUpdateFields 10 20 30 "[]" 7]
  obtain r' rows1 where
    a: "result_reject_view POST 9 (Some 8) ''bad entry'' 1 [?r] = (VerifyDone, rows1)"
    and b: "get_object_or_404 1 rows1 = Some r'" "status r' = Rejected"
      "verified_by r' = Some 8" "verified_at r' = Some 9"
    and c: "remarks r' = ''REJECTED: '' @ ''bad entry'' @ [CHR 0x0A] @ remarks ?r"
    and d: "\<exists>obj rows2 row2.
         update_or_create SaveUpdateFields 10 (student ?r) (course ?r) (session ?r) (semester ?r)
           20 30 [] 7 Draft rows1 = Inr ((obj, False), rows2) \<and>
         get_object_or_404 1 rows2 = Some row2 \<and> status row2 = Draft"
    by blast
  from c have c': "remarks r' = ''REJECTED: bad entry'' @ [CHR 0x0A]"
    by (simp add: example_row_fields)
  from d have d': "\<exists>obj rows2 row2.
         update_or_create SaveUpdateFields 10 1 1 1 1 20 30 [] 7 Draft rows1
           = Inr ((obj, False), rows2) \<and>
         get_object_or_404 1 rows2 = Some row2 \<and> status row2 = Draft"
    by (simp add: example_row_fields)
  show ?thesis
    using ok found ne a b c' d' by blast
qed

section \<open>Submission and verification: properties\<close>

lemma result_submit_view_incomplete:
  assumes "get_allocation_or_404 aid allocs = Some a" "alloc_lecturer a = staff"
    and "length (course_term_results a rows) < length (approved_registrations a regs)"
  shows "result_submit_view POST now staff allocs regs aid rows =
           (SubmitIncomplete (length (approved_registrations a regs)), rows)"
  using assms by (simp add: result_submit_view_def Let_def)

lemma result_submit_view_complete:
  assumes "get_allocation_or_404 aid allocs = Some a" "alloc_lecturer a = staff"
    and "\<not> length (course_term_results a rows) < length (approved_registrations a regs)"
  shows "result_submit_view POST now staff allocs regs aid rows =
           (if 0 < length (filter (eligible_draft a staff) rows)
            then Submitted (length (filter (eligible_draft a staff) rows)) else SubmitNoDrafts,
            map (\<lambda>r. if eligible_draft a staff r
                      then r\<lparr>status := Pending, submitted_at := now\<rparr> else r) rows)"
proof -
  have e: "eligible_draft a staff =
           (\<lambda>r. course r = alloc_course a \<and> session r = alloc_session a \<and>
                 semester r = alloc_semester a \<and> submitted_by r = staff \<and> status r = Draft)"
    by (rule ext) (simp add: eligible_draft_def)
  show ?thesis
    using assms unfolding e by (simp add: result_submit_view_def Let_def)
qed

text \<open>
  C3. For a POST by the lecturer of an existing allocation: when the course and term has
  fewer results than approved registrations, the submission is refused with the
  incomplete-submission error and the table is unchanged. Otherwise every draft the
  lecturer submitted for the course and term becomes pending (stamped with the time),
  every other row is unchanged, and no such draft is left behind: the transition is not
  partial.
\<close>

theorem C3_submit_all_or_nothing:
  assumes "get_allocation_or_404 aid allocs = Some a" and "alloc_lecturer a = staff"
  shows
    "(length (course_term_results a rows) < length (approved_registrations a regs) \<longrightarrow>
        result_submit_view POST now staff allocs regs aid rows =
          (SubmitIncomplete (length (approved_registrations a regs)), rows)) \<and>
     (\<not> length (course_term_results a rows) < length (approved_registrations a regs) \<longrightarrow>
        (\<exists>resp rows'.
           result_submit_view POST now staff allocs regs aid rows = (resp, rows') \<and>
           length rows' = length rows \<and>
           (\<forall>i<length rows.
              (eligible_draft a staff (rows ! i) \<longrightarrow>
                 rows' ! i = (rows ! i)\<lparr>status := Pending, submitted_at := now\<rparr>) \<and>
              (\<not> eligible_draft a staff (rows ! i) \<longrightarrow> rows' ! i = rows ! i)) \<and>
           (\<forall>r'\<in>set rows'. \<not> eligible_draft a staff r') \<and>
           resp = (if 0 < length (filter (eligible_draft a staff) rows)
                   then Submitted (length (filter (eligible_draft a staff) rows))
                   else SubmitNoDrafts)))"
proof (intro conjI impI)
  assume "length (course_term_results a rows) < length (approved_registrations a regs)"
  then show "result_submit_view POST now staff allocs regs aid rows =
          (SubmitIncomplete (length (approved_registrations a regs)), rows)"
    by (rule result_submit_view_incomplete [OF assms])
next
  assume c: "\<not> length (course_term_results a rows) < length (approved_registrations a regs)"
  let ?rows' = "map (\<lambda>r. if eligible_draft a staff r
                      then r\<lparr>status := Pending, submitted_at := now\<rparr> else r) rows"
  have moved: "\<not> eligible_draft a staff (r\<lparr>status := Pending, submitted_at := now\<rparr>)" for r
    by (simp add: eligible_draft_def)
  have none: "\<forall>r'\<in>set ?rows'. \<not> eligible_draft a staff r'"
  proof
    fix r' assume "r' \<in> set ?rows'"
    then obtain r where r: "r' = (if eligible_draft a staff r
                      then r\<lparr>status := Pending, submitted_at := now\<rparr> else r)"
      by (auto simp only: set_map image_iff)
    show "\<not> eligible_draft a staff r'"
    proof (cases "eligible_draft a staff r")
      case True
      with r moved show ?thesis by simp
    next
      case False
      with r show ?thesis by simp
    qed
  qed
  have each: "\<forall>i<length rows.
              (eligible_draft a staff (rows ! i) \<longrightarrow>
                 ?rows' ! i = (rows ! i)\<lparr>status := Pending, submitted_at := now\<rparr>) \<and>
              (\<not> eligible_draft a staff (rows ! i) \<longrightarrow> ?rows' ! i = rows ! i)"
    by simp
  have len: "length ?rows' = length rows" by simp
  note v = result_submit_view_complete [OF assms c, of now]
  show "\<exists>resp rows'.
           result_submit_view POST now staff allocs regs aid rows = (resp, rows') \<and>
           length rows' = length rows \<and>
           (\<forall>i<length rows.
              (eligible_draft a staff (rows ! i) \<longrightarrow>
                 rows' ! i = (rows ! i)\<lparr>status := Pending, submitted_at := now\<rparr>) \<and>
              (\<not> eligible_draft a staff (rows ! i) \<longrightarrow> rows' ! i = rows ! i)) \<and>
           (\<forall>r'\<in>set rows'. \<not> eligible_draft a staff r') \<and>
           resp = (if 0 < length (filter (eligible_draft a staff) rows)
                   then Submitted (length (filter (eligible_draft a staff) rows))
                   else SubmitNoDrafts)"
    unfolding v
    apply (intro exI conjI)
        apply (rule refl)
       apply (rule len)
      apply (rule each)
     apply (rule none)
    apply (rule refl)
    done
qed

theorem C3_submit_all_or_nothing_witness:
  "get_allocation_or_404 1 [example_allocation] = Some example_allocation \<and>
   alloc_lecturer example_allocation = 7 \<and>
   length (course_term_results example_allocation [example_row 1 1 1 30 45 7 Draft])
     < length (approved_registrations example_allocation
         [example_registration 1, example_registration 2]) \<and>
   result_submit_view POST 9 7 [example_allocation]
       [example_registration 1, example_registration 2] 1 [example_row 1 1 1 30 45 7 Draft] =
     (SubmitIncomplete 2, [example_row 1 1 1 30 45 7 Draft]) \<and>
   \<not> length (course_term_results example_allocation
         [example_row 1 1 1 30 45 7 Draft, example_row 2 2 1 20 30 7 Draft])
     < length (approved_registrations example_allocation
         [example_registration 1, example_registration 2]) \<and>
   eligible_draft example_allocation 7 (example_row 1 1 1 30 45 7 Draft) \<and>
   (\<exists>rows'.
      result_submit_view POST 9 7 [example_allocation]
         [example_registration 1, example_registration 2] 1
         [example_row 1 1 1 30 45 7 Draft, example_row 2 2 1 20 30 7 Draft] =
        (Submitted 2, rows') \<and>
      rows' ! 0 = (example_row 1 1 1 30 45 7 Draft)\<lparr>status := Pending, submitted_at := 9\<rparr>)"
proof -
  let ?regs = "[example_registration 1, example_registration 2]"
  let ?r1 = "example_row 1 1 1 30 45 7 Draft"
  let ?r2 = "example_row 2 2 1 20 30 7 Draft"
  have a: "get_allocation_or_404 1 [example_allocation] = Some example_allocation"
    by (simp add: get_allocation_or_404_def example_allocation_def)
  have l: "alloc_lecturer example_allocation = 7"
    by (simp add: example_allocation_def)
  have n: "length (approved_registrations example_allocation ?regs) = 2"
    by (simp add: approved_registrations_def example_allocation_def example_registration_def)
  have c1: "length (course_term_results example_allocation [?r1]) = 1"
    by (simp add: course_term_results_def example_allocation_def example_row_fields)
  have c2: "length (course_term_results example_allocation [?r1, ?r2]) = 2"
    by (simp add: course_term_results_def example_allocation_def example_row_fields)
  have e1: "eligible_draft example_allocation 7 ?r1"
    and e2: "eligible_draft example_allocation 7 ?r2"
    by (simp_all add: eligible_draft_def example_allocation_def example_row_fields)
  have less: "length (course_term_results example_allocation [?r1])
     < length (approved_registrations example_allocation ?regs)"
    unfolding n c1 by simp
  have nless: "\<not> length (course_term_results example_allocation [?r1, ?r2])
     < length (approved_registrations example_allocation ?regs)"
    unfolding n c2 by simp
  from C3_submit_all_or_nothing [OF a l, of "[?r1]" ?regs 9] less
  have inc: "result_submit_view POST 9 7 [example_allocation] ?regs 1 [?r1] =
     (SubmitIncomplete 2, [?r1])"
    unfolding n by blast
  from C3_submit_all_or_nothing [OF a l, of "[?r1, ?r2]" ?regs 9] nless
  obtain resp rows' where
    v: "result_submit_view POST 9 7 [example_allocation] ?regs 1 [?r1, ?r2] = (resp, rows')"
    and each: "\<forall>i<length [?r1, ?r2].
              (eligible_draft example_allocation 7 ([?r1, ?r2] ! i) \<longrightarrow>
                 rows' ! i = ([?r1, ?r2] ! i)\<lparr>status := Pending, submitted_at := 9\<rparr>) \<and>
              (\<not> eligible_draft example_allocation 7 ([?r1, ?r2] ! i) \<longrightarrow>
                 rows' ! i = [?r1, ?r2] ! i)"
    and resp: "resp = (if 0 < length (filter (eligible_draft example_allocation 7) [?r1, ?r2])
                   then Submitted (length (filter (eligible_draft example_allocation 7) [?r1, ?r2]))
                   else SubmitNoDrafts)"
    by blast
  have fl: "filter (eligible_draft example_allocation 7) [?r1, ?r2] = [?r1, ?r2]"
    by (simp only: filter.simps e1 e2 if_True)
  from resp have resp': "resp = Submitted 2"
    unfolding fl by simp
  have "0 < length [?r1, ?r2]" by simp
  with each have "eligible_draft example_allocation 7 ([?r1, ?r2] ! 0) \<longrightarrow>
                 rows' ! 0 = ([?r1, ?r2] ! 0)\<lparr>status := Pending, submitted_at := 9\<rparr>"
    by blast
  with e1 have first: "rows' ! 0 = ?r1\<lparr>status := Pending, submitted_at := 9\<rparr>"
    by (simp only: nth_Cons_0)
  show ?thesis
    using a l less inc nless e1 v [unfolded resp'] first by blast
qed

text \<open>
  C4, as stated, fails: the bulk update has no status filter and reports no skipped
  records. With three pending results and one already verified (by staff 8 at time 5),
  the response counts 4, and the verified one is stamped again with the new verifier and
  time.
\<close>

theorem C4_no_skip_counterexample:
  "bulk_verify_results_ajax 10 (Some 9) [Some 1, Some 2, Some 3, Some 4]
     [example_row 1 1 1 30 45 7 Pending, example_row 2 2 1 20 30 7 Pending,
      example_row 3 3 1 10 20 7 Pending,
      (example_row 4 4 1 30 30 7 Verified)\<lparr>verified_by := Some 8, verified_at := Some 5\<rparr>] =
   (BulkOk 4,
     [(example_row 1 1 1 30 45 7 Verified)\<lparr>verified_by := Some 9, verified_at := Some 10\<rparr>,
      (example_row 2 2 1 20 30 7 Verified)\<lparr>verified_by := Some 9, verified_at := Some 10\<rparr>,
      (example_row 3 3 1 10 20 7 Verified)\<lparr>verified_by := Some 9, verified_at := Some 10\<rparr>,
      (example_row 4 4 1 30 30 7 Verified)\<lparr>verified_by := Some 9, verified_at := Some 10\<rparr>]) \<and>
   BulkOk 4 \<noteq> BulkOk 3 \<and>
   (example_row 4 4 1 30 30 7 Verified)\<lparr>verified_by := Some 9, verified_at := Some 10\<rparr> \<noteq>
   (example_row 4 4 1 30 30 7 Verified)\<lparr>verified_by := Some 8, verified_at := Some 5\<rparr>"
  by (simp add: bulk_verify_results_ajax_def example_row_def auto_calculate_def Let_def)

text \<open>
  C4, amended. For a non-empty list of well-formed identifiers the bulk verification sets
  every row whose key is listed to verified, with the verifier and the time, whatever its
  status was, leaves every other row as it is, and reports the number of rows written;
  no status makes it fail or skip a row. An empty list is refused and changes nothing.
\<close>

theorem C4_bulk_verify_all_listed:
  "(result_ids = [] \<longrightarrow>
      bulk_verify_results_ajax now user_staff result_ids rows = (BulkNoneSelected, rows)) \<and>
   (result_ids \<noteq> [] \<and> None \<notin> set result_ids \<longrightarrow>
      (\<exists>rows'.
         bulk_verify_results_ajax now user_staff result_ids rows =
           (BulkOk (length (filter (\<lambda>r. Some (pk r) \<in> set result_ids) rows)), rows') \<and>
         length rows' = length rows \<and>
         (\<forall>i<length rows.
            (Some (pk (rows ! i)) \<in> set result_ids \<longrightarrow>
               rows' ! i = (rows ! i)\<lparr>status := Verified, verified_by := user_staff,
                                       verified_at := Some now\<rparr>) \<and>
            (Some (pk (rows ! i)) \<notin> set result_ids \<longrightarrow> rows' ! i = rows ! i))))"
proof (intro conjI impI)
  assume "result_ids = []"
  then show "bulk_verify_results_ajax now user_staff result_ids rows = (BulkNoneSelected, rows)"
    by (simp add: bulk_verify_results_ajax_def)
next
  assume h: "result_ids \<noteq> [] \<and> None \<notin> set result_ids"
  let ?rows' = "map (\<lambda>r. if Some (pk r) \<in> set result_ids
                          then r\<lparr>status := Verified, verified_by := user_staff,
                                 verified_at := Some now\<rparr>
                          else r) rows"
  have v: "bulk_verify_results_ajax now user_staff result_ids rows =
           (BulkOk (length (filter (\<lambda>r. Some (pk r) \<in> set result_ids) rows)), ?rows')"
    using h by (simp add: bulk_verify_results_ajax_def Let_def)
  have len: "length ?rows' = length rows" by simp
  have each: "\<forall>i<length rows.
            (Some (pk (rows ! i)) \<in> set result_ids \<longrightarrow>
               ?rows' ! i = (rows ! i)\<lparr>status := Verified, verified_by := user_staff,
                                       verified_at := Some now\<rparr>) \<and>
            (Some (pk (rows ! i)) \<notin> set result_ids \<longrightarrow> ?rows' ! i = rows ! i)"
    by simp
  show "\<exists>rows'.
         bulk_verify_results_ajax now user_staff result_ids rows =
           (BulkOk (length (filter (\<lambda>r. Some (pk r) \<in> set result_ids) rows)), rows') \<and>
         length rows' = length rows \<and>
         (\<forall>i<length rows.
            (Some (pk (rows ! i)) \<in> set result_ids \<longrightarrow>
               rows' ! i = (rows ! i)\<lparr>status := Verified, verified_by := user_staff,
                                       verified_at := Some now\<rparr>) \<and>
            (Some (pk (rows ! i)) \<notin> set result_ids \<longrightarrow> rows' ! i = rows ! i))"
    unfolding v
    apply (intro exI conjI)
      apply (rule refl)
     apply (rule len)
    apply (rule each)
    done
qed

theorem C4_bulk_verify_all_listed_witness:
  "bulk_verify_results_ajax 10 (Some 9) []
      [example_row 1 1 1 30 45 7 Pending,
       (example_row 4 4 1 30 30 7 Verified)\<lparr>verified_by := Some 8, verified_at := Some 5\<rparr>] =
     (BulkNoneSelected,
      [example_row 1 1 1 30 45 7 Pending,
       (example_row 4 4 1 30 30 7 Verified)\<lparr>verified_by := Some 8, verified_at := Some 5\<rparr>]) \<and>
   [Some 4] \<noteq> [] \<and> None \<notin> set [Some (4::nat)] \<and>
   (\<exists>rows'.
      bulk_verify_results_ajax 10 (Some 9) [Some 4]
        [example_row 1 1 1 30 45 7 Pending,
         (example_row 4 4 1 30 30 7 Verified)\<lparr>verified_by := Some 8, verified_at := Some 5\<rparr>] =
        (BulkOk 1, rows') \<and>
      rows' ! 0 = example_row 1 1 1 30 45 7 Pending \<and>
      rows' ! 1 = (example_row 4 4 1 30 30 7 Verified)\<lparr>verified_by := Some 9, verified_at := Some 10\<rparr>)"
proof -
  let ?r1 = "example_row 1 1 1 30 45 7 Pending"
  let ?r4 = "(example_row 4 4 1 30 30 7 Verified)\<lparr>verified_by := Some 8, verified_at := Some 5\<rparr>"
  from C4_bulk_verify_all_listed [of "[]" 10 "Some 9" "[?r1, ?r4]"]
  have none: "bulk_verify_results_ajax 10 (Some 9) [] [?r1, ?r4] = (BulkNoneSelected, [?r1, ?r4])"
    by blast
  have h: "[Some 4] \<noteq> [] \<and> None \<notin> set [Some (4::nat)]" by simp
  from C4_bulk_verify_all_listed [of "[Some 4]" 10 "Some 9" "[?r1, ?r4]"] h
  obtain rows' where
    v: "bulk_verify_results_ajax 10 (Some 9) [Some 4] [?r1, ?r4] =
          (BulkOk (length (filter (\<lambda>r. Some (pk r) \<in> set [Some 4]) [?r1, ?r4])), rows')"
    and each: "\<forall>i<length [?r1, ?r4].
            (Some (pk ([?r1, ?r4] ! i)) \<in> set [Some 4] \<longrightarrow>
               rows' ! i = ([?r1, ?r4] ! i)\<lparr>status := Verified, verified_by := Some 9,
                                       verified_at := Some 10\<rparr>) \<and>
            (Some (pk ([?r1, ?r4] ! i)) \<notin> set [Some 4] \<longrightarrow> rows' ! i = [?r1, ?r4] ! i)"
    by blast
  have c: "length (filter (\<lambda>r. Some (pk r) \<in> set [Some 4]) [?r1, ?r4]) = 1"
    by (simp add: example_row_fields)
  have "0 < length [?r1, ?r4]" by simp
  with each have "Some (pk ([?r1, ?r4] ! 0)) \<notin> set [Some 4] \<longrightarrow> rows' ! 0 = [?r1, ?r4] ! 0"
    by blast
  then have r0: "rows' ! 0 = ?r1"
    by (simp add: example_row_fields)
  have "1 < length [?r1, ?r4]" by simp
  with each have "Some (pk ([?r1, ?r4] ! 1)) \<in> set [Some 4] \<longrightarrow>
               rows' ! 1 = ([?r1, ?r4] ! 1)\<lparr>status := Verified, verified_by := Some 9,
                                       verified_at := Some 10\<rparr>"
    by blast
  then have r1: "rows' ! 1 =
      (example_row 4 4 1 30 30 7 Verified)\<lparr>verified_by := Some 9, verified_at := Some 10\<rparr>"
    by (simp add: example_row_fields)
  show ?thesis
    using none h v [unfolded c] r0 r1 by blast
qed

section \<open>Derived fields: the invariant of the table\<close>

lemma derived_ok_other_fields:
  "derived_ok (r\<lparr>status := s\<rparr>) = derived_ok r"
  "derived_ok (r\<lparr>submitted_at := n\<rparr>) = derived_ok r"
  "derived_ok (r\<lparr>verified_by := v\<rparr>) = derived_ok r"
  "derived_ok (r\<lparr>verified_at := w\<rparr>) = derived_ok r"
  "derived_ok (r\<lparr>remarks := m\<rparr>) = derived_ok r"
  "derived_ok (r\<lparr>submitted_by := b\<rparr>) = derived_ok r"
  by (simp_all add: derived_ok_def)

lemma Model_save_derived_ok:
  "derived_ok self \<Longrightarrow> list_all derived_ok rows \<Longrightarrow> list_all derived_ok (Model_save self rows)"
  by (auto simp add: Model_save_def list_all_iff)

lemma save_derived_ok:
  "list_all derived_ok rows \<Longrightarrow> list_all derived_ok (snd (save r rows))"
  by (simp add: save_def Let_def Model_save_derived_ok auto_calculate_derived_ok)

lemma save_ignores_derived:
  "save (r\<lparr>total_score := t, grade := g, grade_point := p\<rparr>) rows = save r rows"
proof -
  have "auto_calculate (r\<lparr>total_score := t, grade := g, grade_point := p\<rparr>) = auto_calculate r"
    by (rule auto_calculate_overrides)
  then show ?thesis
    by (simp add: save_def Let_def)
qed

lemma update_or_create_derived_ok:
  assumes "list_all derived_ok rows"
    and "update_or_create SaveAllFields now st c se sm ca ex rem by stat rows = Inr (x, rows')"
  shows "list_all derived_ok rows'"
proof (cases "filter (\<lambda>r. student r = st \<and> course r = c \<and> session r = se \<and> semester r = sm) rows")
  case Nil
  with assms(2) have "rows' = snd (save (new_result (next_pk rows) now st c se sm ca ex rem by stat) rows)"
    by (auto simp add: update_or_create_def split: prod.splits)
  then show ?thesis by (simp add: save_derived_ok [OF assms(1)])
next
  case (Cons obj tl)
  show ?thesis
  proof (cases tl)
    case Nil
    with Cons assms(2) have "rows' = snd (save (set_defaults obj ca ex rem by stat) rows)"
      by (auto simp add: update_or_create_def split: prod.splits)
    then show ?thesis by (simp add: save_derived_ok [OF assms(1)])
  next
    case (Cons y ys)
    with \<open>filter _ rows = obj # tl\<close> assms(2) show ?thesis
      by (simp add: update_or_create_def)
  qed
qed

lemma save_result_ajax_derived_ok:
  assumes "list_all derived_ok rows"
  shows "list_all derived_ok
           (snd (save_result_ajax SaveAllFields now staff st c se sm ca_in exam_in rem rows))"
  using assms update_or_create_derived_ok [OF assms]
  by (auto simp add: save_result_ajax_def split: option.splits sum.splits prod.splits)

lemma entry_loop_derived_ok:
  "list_all derived_ok rows \<Longrightarrow>
     list_all derived_ok
       (snd (snd (snd (entry_loop SaveAllFields now staff a ca_in exam_in rem_in sts saved errs rows))))"
proof (induction sts arbitrary: saved errs rows)
  case Nil
  then show ?case by simp
next
  case (Cons st sts)
  show ?case
  proof (cases "ca_in st \<noteq> Blank \<and> exam_in st \<noteq> Blank")
    case False
    then show ?thesis using Cons by auto
  next
    case True
    show ?thesis
    proof (cases "float_of (ca_in st)")
      case None
      with True Cons show ?thesis by simp
    next
      case (Some ca)
      note ca = this
      show ?thesis
      proof (cases "float_of (exam_in st)")
        case None
        with True ca Cons show ?thesis by simp
      next
        case (Some ex)
        note ex = this
        show ?thesis
        proof (cases "ca < 0 \<or> ca > 40 \<or> ex < 0 \<or> ex > 60")
          case True
          with \<open>ca_in st \<noteq> Blank \<and> exam_in st \<noteq> Blank\<close> ca ex Cons show ?thesis by auto
        next
          case False
          show ?thesis
          proof (cases "update_or_create SaveAllFields now st (alloc_course a) (alloc_session a)
                          (alloc_semester a) ca ex (rem_in st) staff Draft rows")
            case (Inl e)
            with False \<open>ca_in st \<noteq> Blank \<and> exam_in st \<noteq> Blank\<close> ca ex Cons.prems
            show ?thesis by simp
          next
            case (Inr y)
            obtain x rows' where y: "y = (x, rows')" by (cases y)
            from update_or_create_derived_ok [OF Cons.prems Inr [unfolded y]]
            have "list_all derived_ok rows'" .
            from Cons.IH [OF this]
            show ?thesis
              using False \<open>ca_in st \<noteq> Blank \<and> exam_in st \<noteq> Blank\<close> ca ex Inr y by simp
          qed
        qed
      qed
    qed
  qed
qed

lemma result_entry_view_derived_ok:
  assumes "list_all derived_ok rows"
  shows "list_all derived_ok
           (snd (result_entry_view method SaveAllFields now staff allocs regs
                   ca_in exam_in rem_in aid rows))"
proof -
  have loop: "list_all derived_ok b"
    if "entry_loop SaveAllFields now s a ca_in exam_in rem_in sts 0 [] rows = (e, n, errs, b)"
    for s a sts e n errs b
    using entry_loop_derived_ok [OF assms, of now s a ca_in exam_in rem_in sts 0 "[]"] that
    by simp
  show ?thesis
    using assms
    by (auto simp add: result_entry_view_def Let_def split: option.splits prod.splits
        dest: loop)
qed

lemma result_edit_view_derived_ok:
  assumes "list_all derived_ok rows"
  shows "list_all derived_ok (snd (result_edit_view method staff ca_in exam_in rem k rows))"
  using assms save_derived_ok [OF assms]
  by (auto simp add: result_edit_view_def Let_def split: option.splits)

lemma result_submit_view_derived_ok:
  assumes "list_all derived_ok rows"
  shows "list_all derived_ok (snd (result_submit_view method now staff allocs regs aid rows))"
  using assms
  by (auto simp add: result_submit_view_def Let_def list_all_iff derived_ok_other_fields
      split: option.splits)

lemma result_verify_view_derived_ok:
  assumes "list_all derived_ok rows"
  shows "list_all derived_ok (snd (result_verify_view method now user_staff k rows))"
  using assms save_derived_ok [OF assms]
  by (auto simp add: result_verify_view_def Let_def split: option.splits)

lemma result_reject_view_derived_ok:
  assumes "list_all derived_ok rows"
  shows "list_all derived_ok (snd (result_reject_view method now user_staff reason k rows))"
  using assms save_derived_ok [OF assms]
  by (auto simp add: result_reject_view_def Let_def split: option.splits)

lemma bulk_verify_results_ajax_derived_ok:
  assumes "list_all derived_ok rows"
  shows "list_all derived_ok (snd (bulk_verify_results_ajax now user_staff ids rows))"
  using assms
  by (auto simp add: bulk_verify_results_ajax_def Let_def list_all_iff derived_ok_other_fields)

text \<open>
  When \<open>update_or_create\<close> saves every field, each write of \<open>Result.save\<close> recomputes the
  derived fields and writes them with the scores, and every view that writes keeps all
  rows of the table in that state.
\<close>

lemma derived_fields_kept_when_all_fields_saved:
  "total_score (fst (save r rows)) = ca_score r + exam_score r \<and>
   (grade (fst (save r rows)), grade_point (fst (save r rows))) =
      get_grade_from_score (total_score (fst (save r rows))) \<and>
   fst (save r rows) \<in> set (snd (save r rows)) \<and>
   save (r\<lparr>total_score := t, grade := g, grade_point := p\<rparr>) rows = save r rows \<and>
   (list_all derived_ok rows \<longrightarrow>
      list_all derived_ok (snd (save r rows)) \<and>
      list_all derived_ok
        (snd (save_result_ajax SaveAllFields now staff st c se sm ca_in exam_in rem rows)) \<and>
      list_all derived_ok
        (snd (result_entry_view method SaveAllFields now staff allocs regs cas exams rems aid rows)) \<and>
      list_all derived_ok (snd (result_edit_view method staff ca_in exam_in rem k rows)) \<and>
      list_all derived_ok (snd (result_submit_view method now staff allocs regs aid rows)) \<and>
      list_all derived_ok (snd (result_verify_view method now user_staff k rows)) \<and>
      list_all derived_ok (snd (result_reject_view method now user_staff reason k rows)) \<and>
      list_all derived_ok (snd (bulk_verify_results_ajax now user_staff ids rows)))"
proof -
  have d: "derived_ok (fst (save r rows))"
    by (simp add: save_def Let_def auto_calculate_derived_ok)
  have k: "ca_score (fst (save r rows)) = ca_score r" "exam_score (fst (save r rows)) = exam_score r"
    by (simp_all add: save_def Let_def auto_calculate_keeps)
  have m: "fst (save r rows) \<in> set (snd (save r rows))"
    by (auto simp add: save_def Let_def Model_save_def)
  from d k have
    "total_score (fst (save r rows)) = ca_score r + exam_score r"
    "(grade (fst (save r rows)), grade_point (fst (save r rows))) =
      get_grade_from_score (total_score (fst (save r rows)))"
    by (simp_all add: derived_ok_def)
  with k m show ?thesis
    by (simp add: save_ignores_derived save_derived_ok save_result_ajax_derived_ok
        result_entry_view_derived_ok result_edit_view_derived_ok result_submit_view_derived_ok
        result_verify_view_derived_ok result_reject_view_derived_ok
        bulk_verify_results_ajax_derived_ok)
qed

text \<open>
  C6. \<open>Result.save\<close> computes the derived fields on the instance, but it hands
  \<open>update_fields\<close> on unchanged. When \<open>update_or_create\<close> saves a row it found with
  \<open>update_fields\<close> (Django 4.2 and later), only the scores and the other defaults are
  written: a result entered with the scores 30 and 45 and entered again with 10 and 20 is
  stored with the new scores and the old total 75, grade A and grade point 5, while the
  response reports 30, F and 0.
\<close>

theorem C6_stale_derived_fields:
  "save_result_ajax SaveUpdateFields 5 7 1 1 1 1 (Number 30) (Number 45) [] [] =
     (SaveOk 75 ''A'' 5, [(example_row 1 1 1 30 45 7 Draft)\<lparr>submitted_at := 5\<rparr>]) \<and>
   save_result_ajax SaveUpdateFields 6 7 1 1 1 1 (Number 10) (Number 20) []
       [(example_row 1 1 1 30 45 7 Draft)\<lparr>submitted_at := 5\<rparr>] =
     (SaveOk 30 ''F'' 0,
      [(example_row 1 1 1 30 45 7 Draft)\<lparr>submitted_at := 5, ca_score := 10, exam_score := 20\<rparr>]) \<and>
   ca_score ((example_row 1 1 1 30 45 7 Draft)
      \<lparr>submitted_at := 5, ca_score := 10, exam_score := 20\<rparr>) = 10 \<and>
   exam_score ((example_row 1 1 1 30 45 7 Draft)
      \<lparr>submitted_at := 5, ca_score := 10, exam_score := 20\<rparr>) = 20 \<and>
   total_score ((example_row 1 1 1 30 45 7 Draft)
      \<lparr>submitted_at := 5, ca_score := 10, exam_score := 20\<rparr>) = 75 \<and>
   grade ((example_row 1 1 1 30 45 7 Draft)
      \<lparr>submitted_at := 5, ca_score := 10, exam_score := 20\<rparr>) = ''A'' \<and>
   grade_point ((example_row 1 1 1 30 45 7 Draft)
      \<lparr>submitted_at := 5, ca_score := 10, exam_score := 20\<rparr>) = 5 \<and>
   \<not> derived_ok ((example_row 1 1 1 30 45 7 Draft)
      \<lparr>submitted_at := 5, ca_score := 10, exam_score := 20\<rparr>)"
  by (simp add: save_result_ajax_def float_of_def update_or_create_def save_def Model_save_def
      set_defaults_def new_result_def next_pk_def save_update_fields_def
      Model_save_update_fields_def update_or_create_fields_def derived_ok_def
      example_row_def auto_calculate_def Let_def)

end
